theory Spec2Isabelle
  imports Main "HOL-Library.Word"
begin

section \<open>File preview modal: extension classifier, fetches and renderer\<close>

text \<open>
  A shallow embedding of the React component \<^verbatim>\<open>FilePreviewModal\<close> and of
  \<^verbatim>\<open>getFileIcon\<close> of the connector configuration display. The source holds
  two variants of the component; the one embedded is the fuller one, whose effect
  starts both fetches and whose \<^verbatim>\<open>fetchIndexedContent\<close> has the mock branch and
  the derivation of the identifier from the path.

  A JavaScript string is the list of its UTF-16 code units. An optional prop
  (\<^verbatim>\<open>filePath?: string\<close>) is an option, \<open>None\<close> being \<^verbatim>\<open>undefined\<close>. A promise
  settles with a value of a sum type: \<open>Inl x\<close> is a rejection (or a throw) with
  the value \<open>x\<close> thrown, \<open>Inr v\<close> a fulfilment with \<open>v\<close>.
\<close>

subsection \<open>JavaScript strings\<close>

type_synonym jsstring = "16 word list"

text \<open>The JavaScript string of a literal of the source.\<close>

definition js :: "string \<Rightarrow> jsstring" where
  "js s = map of_char s"

text \<open>
  What is thrown or what a promise is rejected with: an error object with its message
  (\<^verbatim>\<open>new Error(msg)\<close>, a network error, an unbound name), or the
  \<^verbatim>\<open>URIError\<close> of \<^verbatim>\<open>encodeURIComponent\<close>.
\<close>

datatype thrown = Error jsstring | URIError

type_synonym 'a settled = "thrown + 'a"

text \<open>
  What the component takes from its surroundings without defining it: the case
  conversion of the JavaScript engine beyond ASCII, and the function
  \<^verbatim>\<open>getDocumentIdFromPath\<close>, which the component's file calls and neither defines
  nor imports (it returns an identifier, \<open>Inr\<close>, or throws, \<open>Inl\<close>).
\<close>

record env =
  lowerNonAscii :: "jsstring \<Rightarrow> jsstring"
  getDocumentIdFromPath :: "jsstring \<Rightarrow> jsstring settled"

text \<open>
  \<^verbatim>\<open>String.prototype.toLowerCase\<close>. On a string of ASCII code units it turns the
  letters \<open>A\<close> to \<open>Z\<close> into \<open>a\<close> to \<open>z\<close> and keeps every other unit. On a string
  with a unit beyond ASCII the result is the one of the engine's Unicode case
  conversion, \<open>lowerNonAscii\<close> (it lowers \<open>U+00C9\<close> to \<open>U+00E9\<close> and the Kelvin sign
  \<open>U+212A\<close> to \<open>k\<close>, for instance).
\<close>

definition lower_unit :: "16 word \<Rightarrow> 16 word" where
  "lower_unit u = (if 65 \<le> u \<and> u \<le> 90 then u + 32 else u)"

definition ascii :: "jsstring \<Rightarrow> bool" where
  "ascii s = list_all (\<lambda>u. u < 128) s"

definition toLowerCase :: "env \<Rightarrow> jsstring \<Rightarrow> jsstring" where
  "toLowerCase env s = (if ascii s then map lower_unit s else lowerNonAscii env s)"

text \<open>
  \<^verbatim>\<open>s.split(sep)\<close> for a one-unit separator: the pieces between the
  separators, in order. The result is never empty: a string without the separator
  is its own single piece.
\<close>

fun split :: "'a \<Rightarrow> 'a list \<Rightarrow> 'a list list" where
  "split sep [] = [[]]"
| "split sep (c # cs) =
     (if c = sep then [] # split sep cs
      else (case split sep cs of
              [] \<Rightarrow> [[c]]
            | piece # pieces \<Rightarrow> (c # piece) # pieces))"

text \<open>\<^verbatim>\<open>Array.prototype.pop\<close>: the last element, \<^verbatim>\<open>undefined\<close> on an empty array.\<close>

definition pop :: "'a list \<Rightarrow> 'a option" where
  "pop xs = (if xs = [] then None else Some (last xs))"

text \<open>
  Truthiness of an optional string: \<^verbatim>\<open>undefined\<close> and \<^verbatim>\<open>""\<close> are falsy.
  \<open>str_of\<close> reads the string of a truthy value.
\<close>

definition truthy :: "jsstring option \<Rightarrow> bool" where
  "truthy x = (case x of None \<Rightarrow> False | Some s \<Rightarrow> s \<noteq> [])"

definition str_of :: "jsstring option \<Rightarrow> jsstring" where
  "str_of x = (case x of None \<Rightarrow> [] | Some s \<Rightarrow> s)"

text \<open>
  \<^verbatim>\<open>encodeURIComponent(s)\<close> throws a \<^verbatim>\<open>URIError\<close> exactly when \<open>s\<close> has a
  surrogate code unit that is not part of a pair: a high surrogate (\<open>D800\<close> to
  \<open>DBFF\<close>) not followed by a low one (\<open>DC00\<close> to \<open>DFFF\<close>), or a low surrogate not
  preceded by a high one.
\<close>

definition high_surrogate :: "16 word \<Rightarrow> bool" where
  "high_surrogate u = (0xD800 \<le> u \<and> u \<le> 0xDBFF)"

definition low_surrogate :: "16 word \<Rightarrow> bool" where
  "low_surrogate u = (0xDC00 \<le> u \<and> u \<le> 0xDFFF)"

fun lone_surrogate :: "jsstring \<Rightarrow> bool" where
  "lone_surrogate [] = False"
| "lone_surrogate [u] = (high_surrogate u \<or> low_surrogate u)"
| "lone_surrogate (u # v # us) =
     (if high_surrogate u then (if low_surrogate v then lone_surrogate us else True)
      else if low_surrogate u then True
      else lone_surrogate (v # us))"

subsection \<open>Extension predicates of the modal\<close>

text \<open>\<^verbatim>\<open>fileName.split('.').pop()?.toLowerCase() || ''\<close>\<close>

definition fileExt :: "env \<Rightarrow> jsstring \<Rightarrow> jsstring" where
  "fileExt env fileName =
     (case pop (split (of_char CHR ''.'') fileName) of
        None \<Rightarrow> []
      | Some piece \<Rightarrow> (if toLowerCase env piece = [] then [] else toLowerCase env piece))"

definition isPdf :: "jsstring \<Rightarrow> bool" where
  "isPdf ext = (ext = js ''pdf'')"

definition isImage :: "jsstring \<Rightarrow> bool" where
  "isImage ext =
     (ext \<in> set [js ''jpg'', js ''jpeg'', js ''png'', js ''gif'', js ''webp'', js ''svg''])"

definition isTextFile :: "jsstring \<Rightarrow> bool" where
  "isTextFile ext =
     (ext \<in> set [js ''txt'', js ''md'', js ''markdown'', js ''json'', js ''csv'', js ''xml'',
                 js ''html''])"

definition isDocument :: "jsstring \<Rightarrow> bool" where
  "isDocument ext = (ext \<in> set [js ''docx'', js ''doc'', js ''rtf''])"

definition isSpreadsheet :: "jsstring \<Rightarrow> bool" where
  "isSpreadsheet ext = (ext \<in> set [js ''xlsx'', js ''xls'', js ''csv''])"

definition isCode :: "jsstring \<Rightarrow> bool" where
  "isCode ext =
     (ext \<in> set [js ''js'', js ''ts'', js ''jsx'', js ''tsx'', js ''py'', js ''java'', js ''c'',
                 js ''cpp'', js ''rb'', js ''php''])"

subsection \<open>Icon selection of the connector configuration display\<close>

datatype icon = FiFile_red | FileImage_blue | FileCode_green | FileText_grey

text \<open>\<^verbatim>\<open>getFileIcon\<close> computes its extension with the same expression as the modal.\<close>

definition getFileIcon :: "env \<Rightarrow> jsstring \<Rightarrow> icon" where
  "getFileIcon env fileName =
     (let ext = (case pop (split (of_char CHR ''.'') fileName) of
                   None \<Rightarrow> []
                 | Some piece \<Rightarrow>
                     (if toLowerCase env piece = [] then [] else toLowerCase env piece))
      in if ext \<in> set [js ''pdf''] then FiFile_red
         else if ext \<in> set [js ''jpg'', js ''jpeg'', js ''png'', js ''gif'', js ''webp'',
                            js ''svg''] then FileImage_blue
         else if ext \<in> set [js ''js'', js ''ts'', js ''jsx'', js ''tsx'', js ''py'', js ''java'',
                            js ''c'', js ''cpp'', js ''php'', js ''rb'', js ''go'']
           then FileCode_green
         else FileText_grey)"

subsection \<open>Props and component state\<close>

record props =
  fileName :: jsstring
  filePath :: "jsstring option"
  documentId :: "jsstring option"
  isOpen :: bool
  mockOriginalContent :: "jsstring option"
  mockIndexedContent :: "jsstring option"

text \<open>
  The \<^verbatim>\<open>useState\<close> cells. (\<^verbatim>\<open>activeTab\<close> is never read or set and is left out.)
\<close>

record modal_state =
  isLoading :: bool
  originalContentLoading :: bool
  indexedContentLoading :: bool
  originalContent :: jsstring
  indexedContent :: jsstring
  fileUrl :: jsstring
  error :: "jsstring option"

definition initial_state :: modal_state where
  "initial_state =
     \<lparr>isLoading = True, originalContentLoading = True, indexedContentLoading = True,
      originalContent = [], indexedContent = [], fileUrl = [], error = None\<rparr>"

subsection \<open>Renderer\<close>

datatype render_instruction =
    Spinner
  | ErrorPanel jsstring
  | PdfViewer jsstring
  | ImageView jsstring jsstring
  | DownloadPlaceholder
  | PreBlock bool jsstring

text \<open>
  \<^verbatim>\<open>renderFileContent(isOriginal)\<close>. \<open>PdfViewer src\<close> is the iframe with that
  \<open>src\<close>, \<open>ImageView src alt\<close> the bounded image, \<open>PreBlock code text\<close> the
  \<^verbatim>\<open>pre\<close> element (\<^verbatim>\<open>whitespace-pre\<close> when \<open>code\<close>, else
  \<^verbatim>\<open>whitespace-pre-wrap\<close>).
\<close>

definition renderFileContent ::
  "env \<Rightarrow> props \<Rightarrow> modal_state \<Rightarrow> bool \<Rightarrow> render_instruction" where
  "renderFileContent env p s isOriginal =
     (let ext = fileExt env (fileName p);
          displayContent = (if isOriginal then originalContent s else indexedContent s);
          pre = PreBlock (isCode ext)
                  (if displayContent \<noteq> [] then displayContent
                   else if isOriginal then js ''No original content available''
                   else js ''No indexed content available'')
      in if isLoading s \<or> (if isOriginal then originalContentLoading s else indexedContentLoading s)
         then Spinner
         else if truthy (error s) then ErrorPanel (str_of (error s))
         else if isOriginal then
           (if isPdf ext \<and> fileUrl s \<noteq> [] then PdfViewer (fileUrl s @ js ''#toolbar=0'')
            else if isImage ext \<and> fileUrl s \<noteq> [] then ImageView (fileUrl s) (fileName p)
            else if isDocument ext \<and> originalContent s = [] then DownloadPlaceholder
            else pre)
         else pre)"

text \<open>
  What the component returns: the dialog with its title, one panel, which is
  \<^verbatim>\<open>renderFileContent(true)\<close>, and the \<^verbatim>\<open>Download Original\<close> button, present
  when \<^verbatim>\<open>fileUrl\<close> is truthy. The returned tree has no other call of
  \<^verbatim>\<open>renderFileContent\<close>: nothing renders the indexed content.
\<close>

record view =
  dialog_open :: bool
  title :: jsstring
  body :: render_instruction
  download_button :: bool

definition modal_view :: "env \<Rightarrow> props \<Rightarrow> modal_state \<Rightarrow> view" where
  "modal_view env p s =
     \<lparr>dialog_open = isOpen p, title = fileName p, body = renderFileContent env p s True,
      download_button = (fileUrl s \<noteq> [])\<rparr>"

subsection \<open>Asynchronous fetches\<close>

text \<open>
  The calls the component makes to the browser, in the order it makes them: a
  \<^verbatim>\<open>fetch\<close> of \<^verbatim>\<open>/api/chat/file/\<close> followed by the encoded identifier, a
  \<^verbatim>\<open>fetch\<close> of \<^verbatim>\<open>/api/document/indexed-content?document_id=\<close> followed by the
  encoded identifier (each logged with the identifier that was encoded),
  \<^verbatim>\<open>URL.createObjectURL\<close> (with the URL it returned),
  \<^verbatim>\<open>URL.revokeObjectURL\<close>, and \<^verbatim>\<open>console.error\<close> (with its label and the
  value caught).
\<close>

datatype effect =
    FetchFile jsstring
  | FetchIndexed jsstring
  | CreateObjectURL jsstring
  | RevokeObjectURL jsstring
  | ConsoleError jsstring thrown

text \<open>
  Where a running \<^verbatim>\<open>fetchOriginalContent\<close> or \<^verbatim>\<open>fetchIndexedContent\<close> is
  suspended. The flag of the first two stages is the value of
  \<^verbatim>\<open>isTextFile || isCode || isSpreadsheet\<close> in the closure of the render that
  started the fetch.
\<close>

datatype orig_stage = OrigAwaitResponse bool | OrigAwaitBlob bool | OrigAwaitText | OrigDone

datatype idx_stage = IdxAwaitResponse | IdxAwaitJson | IdxDone

text \<open>One run of the effect: the two promises handed to \<^verbatim>\<open>Promise.all\<close>.\<close>

record batch =
  orig :: orig_stage
  idx :: idx_stage

record config =
  st :: modal_state
  cur :: props
  batches :: "batch list"
  effects :: "effect list"

definition set_orig :: "nat \<Rightarrow> orig_stage \<Rightarrow> config \<Rightarrow> config" where
  "set_orig n x c = c\<lparr>batches := (batches c)[n := (batches c ! n)\<lparr>orig := x\<rparr>]\<rparr>"

definition set_idx :: "nat \<Rightarrow> idx_stage \<Rightarrow> config \<Rightarrow> config" where
  "set_idx n x c = c\<lparr>batches := (batches c)[n := (batches c ! n)\<lparr>idx := x\<rparr>]\<rparr>"

text \<open>
  \<^verbatim>\<open>Promise.all([...]).finally(() => setIsLoading(false))\<close>: runs once both promises
  of the batch have settled (neither function lets an error escape its \<^verbatim>\<open>catch\<close>).
\<close>

definition promise_all_finally :: "nat \<Rightarrow> config \<Rightarrow> config" where
  "promise_all_finally n c =
     (if orig (batches c ! n) = OrigDone \<and> idx (batches c ! n) = IdxDone
      then c\<lparr>st := (st c)\<lparr>isLoading := False\<rparr>\<rparr> else c)"

text \<open>The \<^verbatim>\<open>catch\<close> block of \<^verbatim>\<open>fetchOriginalContent\<close>.\<close>

definition orig_failed :: "thrown \<Rightarrow> config \<Rightarrow> config" where
  "orig_failed x c =
     c\<lparr>st := (st c)\<lparr>error := Some (js ''Failed to load original file content.''),
                     originalContentLoading := False\<rparr>,
       effects := effects c @ [ConsoleError (js ''Error fetching original file:'') x]\<rparr>"

definition orig_catch :: "thrown \<Rightarrow> nat \<Rightarrow> config \<Rightarrow> config" where
  "orig_catch x n c = promise_all_finally n (set_orig n OrigDone (orig_failed x c))"

text \<open>The \<^verbatim>\<open>catch\<close> block of \<^verbatim>\<open>fetchIndexedContent\<close>.\<close>

definition idx_failed :: "thrown \<Rightarrow> config \<Rightarrow> config" where
  "idx_failed x c =
     c\<lparr>st := (st c)\<lparr>indexedContent := js ''Indexed content is not available for this file.'',
                     indexedContentLoading := False\<rparr>,
       effects := effects c @ [ConsoleError (js ''Error fetching indexed content:'') x]\<rparr>"

definition idx_catch :: "thrown \<Rightarrow> nat \<Rightarrow> config \<Rightarrow> config" where
  "idx_catch x n c = promise_all_finally n (set_idx n IdxDone (idx_failed x c))"

text \<open>\<^verbatim>\<open>filePath || fileName\<close>\<close>

definition fileId :: "props \<Rightarrow> jsstring" where
  "fileId p = (if truthy (filePath p) then str_of (filePath p) else fileName p)"

text \<open>
  \<^verbatim>\<open>fetchOriginalContent\<close> up to its first \<^verbatim>\<open>await\<close>: the updated configuration
  and the stage at which the call is left. The argument of \<^verbatim>\<open>fetch\<close> is evaluated
  inside the \<^verbatim>\<open>try\<close>: when \<^verbatim>\<open>encodeURIComponent(fileId)\<close> throws, the
  \<^verbatim>\<open>catch\<close> block runs at once and no request is made.
\<close>

definition fetchOriginalContent :: "env \<Rightarrow> props \<Rightarrow> config \<Rightarrow> config \<times> orig_stage" where
  "fetchOriginalContent env p c =
     (if truthy (mockOriginalContent p) then
        (c\<lparr>st := (st c)\<lparr>originalContent := str_of (mockOriginalContent p),
                         originalContentLoading := False\<rparr>\<rparr>,
         OrigDone)
      else
        (let c1 = c\<lparr>st := (st c)\<lparr>originalContentLoading := True\<rparr>\<rparr>;
             ext = fileExt env (fileName p)
         in if lone_surrogate (fileId p) then (orig_failed URIError c1, OrigDone)
            else (c1\<lparr>effects := effects c1 @ [FetchFile (fileId p)]\<rparr>,
                  OrigAwaitResponse (isTextFile ext \<or> isCode ext \<or> isSpreadsheet ext))))"

text \<open>
  \<^verbatim>\<open>documentId || (filePath ? getDocumentIdFromPath(filePath) : "")\<close>
\<close>

definition docId :: "env \<Rightarrow> props \<Rightarrow> jsstring settled" where
  "docId env p =
     (if truthy (documentId p) then Inr (str_of (documentId p))
      else if truthy (filePath p) then getDocumentIdFromPath env (str_of (filePath p))
      else Inr [])"

text \<open>
  \<^verbatim>\<open>fetchIndexedContent\<close> up to its first \<^verbatim>\<open>await\<close>. A throw before the first
  \<^verbatim>\<open>await\<close> (of \<^verbatim>\<open>getDocumentIdFromPath\<close>, of the check of the identifier, of
  \<^verbatim>\<open>encodeURIComponent\<close>) runs the \<^verbatim>\<open>catch\<close> block synchronously.
\<close>

definition fetchIndexedContent :: "env \<Rightarrow> props \<Rightarrow> config \<Rightarrow> config \<times> idx_stage" where
  "fetchIndexedContent env p c =
     (if truthy (mockIndexedContent p) then
        (c\<lparr>st := (st c)\<lparr>indexedContent := str_of (mockIndexedContent p),
                         indexedContentLoading := False\<rparr>\<rparr>,
         IdxDone)
      else
        (let c1 = c\<lparr>st := (st c)\<lparr>indexedContentLoading := True\<rparr>\<rparr>
         in case docId env p of
              Inl x \<Rightarrow> (idx_failed x c1, IdxDone)
            | Inr d \<Rightarrow>
                if d = [] then
                  (idx_failed (Error (js ''No document ID available for indexed content'')) c1,
                   IdxDone)
                else if lone_surrogate d then (idx_failed URIError c1, IdxDone)
                else (c1\<lparr>effects := effects c1 @ [FetchIndexed d]\<rparr>, IdxAwaitResponse)))"

text \<open>The effect callback; it returns no cleanup function.\<close>

definition useEffect :: "env \<Rightarrow> props \<Rightarrow> config \<Rightarrow> config" where
  "useEffect env p c =
     (if isOpen p then
        (let c1 = c\<lparr>st := (st c)\<lparr>isLoading := True, error := None\<rparr>\<rparr>;
             (c2, so) = fetchOriginalContent env p c1;
             (c3, si) = fetchIndexedContent env p c2;
             n = length (batches c3)
         in promise_all_finally n (c3\<lparr>batches := batches c3 @ [\<lparr>orig = so, idx = si\<rparr>]\<rparr>))
      else c)"

text \<open>The dependency array \<^verbatim>\<open>[isOpen, fileName, filePath, documentId]\<close>.\<close>

definition deps :: "props \<Rightarrow> bool \<times> jsstring \<times> jsstring option \<times> jsstring option" where
  "deps p = (isOpen p, fileName p, filePath p, documentId p)"

text \<open>The first render of a mounted component: initial state, then the effect.\<close>

definition mount :: "env \<Rightarrow> props \<Rightarrow> config" where
  "mount env p = useEffect env p \<lparr>st = initial_state, cur = p, batches = [], effects = []\<rparr>"

text \<open>
  What can happen to a mounted component: a render with new props (opening, reopening
  and closing are renders; the effect runs when a dependency changed), and the
  settling of a promise that a fetch of batch \<open>n\<close> awaits: \<^verbatim>\<open>fetch\<close> (with
  \<^verbatim>\<open>response.ok\<close> and \<^verbatim>\<open>response.statusText\<close>), \<^verbatim>\<open>response.blob()\<close> (with the
  URL that \<^verbatim>\<open>URL.createObjectURL\<close> then returns for the blob; a throw of
  \<^verbatim>\<open>URL.createObjectURL\<close> is caught like a rejection), \<^verbatim>\<open>blob.text()\<close> and
  \<^verbatim>\<open>response.json()\<close> (with \<^verbatim>\<open>data.content\<close>, the empty string standing for a
  missing one; a failure to read \<^verbatim>\<open>data.content\<close> is caught like a rejection).
\<close>

datatype event =
    Render props
  | OrigResponse nat "(bool \<times> jsstring) settled"
  | OrigBlob nat "jsstring settled"
  | OrigText nat "jsstring settled"
  | IdxResponse nat "(bool \<times> jsstring) settled"
  | IdxJson nat "jsstring settled"

text \<open>
  One event. A settlement that no fetch is waiting for does not occur; the step
  leaves the configuration as it is.
\<close>

fun step :: "env \<Rightarrow> event \<Rightarrow> config \<Rightarrow> config" where
  "step env (Render p) c =
     (if deps p \<noteq> deps (cur c) then useEffect env p (c\<lparr>cur := p\<rparr>) else c\<lparr>cur := p\<rparr>)"
| "step env (OrigResponse n r) c =
     (if n < length (batches c) then
        (case orig (batches c ! n) of
           OrigAwaitResponse d \<Rightarrow>
             (case r of
                Inl x \<Rightarrow> orig_catch x n c
              | Inr (ok, statusText) \<Rightarrow>
                  if ok then set_orig n (OrigAwaitBlob d) c
                  else orig_catch (Error (js ''Failed to load file: '' @ statusText)) n c)
         | _ \<Rightarrow> c)
      else c)"
| "step env (OrigBlob n r) c =
     (if n < length (batches c) then
        (case orig (batches c ! n) of
           OrigAwaitBlob d \<Rightarrow>
             (case r of
                Inl x \<Rightarrow> orig_catch x n c
              | Inr url \<Rightarrow>
                  (let c1 = c\<lparr>st := (st c)\<lparr>fileUrl := url\<rparr>,
                              effects := effects c @ [CreateObjectURL url]\<rparr>
                   in if d then set_orig n OrigAwaitText c1
                      else promise_all_finally n
                             (set_orig n OrigDone
                                (c1\<lparr>st := (st c1)\<lparr>originalContentLoading := False\<rparr>\<rparr>))))
         | _ \<Rightarrow> c)
      else c)"
| "step env (OrigText n r) c =
     (if n < length (batches c) then
        (case orig (batches c ! n) of
           OrigAwaitText \<Rightarrow>
             (case r of
                Inl x \<Rightarrow> orig_catch x n c
              | Inr content \<Rightarrow>
                  promise_all_finally n
                    (set_orig n OrigDone
                       (c\<lparr>st := (st c)\<lparr>originalContent := content,
                                        originalContentLoading := False\<rparr>\<rparr>)))
         | _ \<Rightarrow> c)
      else c)"
| "step env (IdxResponse n r) c =
     (if n < length (batches c) then
        (case idx (batches c ! n) of
           IdxAwaitResponse \<Rightarrow>
             (case r of
                Inl x \<Rightarrow> idx_catch x n c
              | Inr (ok, statusText) \<Rightarrow>
                  if ok then set_idx n IdxAwaitJson c
                  else idx_catch
                         (Error (js ''Failed to load indexed content: '' @ statusText)) n c)
         | _ \<Rightarrow> c)
      else c)"
| "step env (IdxJson n r) c =
     (if n < length (batches c) then
        (case idx (batches c ! n) of
           IdxAwaitJson \<Rightarrow>
             (case r of
                Inl x \<Rightarrow> idx_catch x n c
              | Inr content \<Rightarrow>
                  promise_all_finally n
                    (set_idx n IdxDone
                       (c\<lparr>st := (st c)\<lparr>indexedContent := content,
                                        indexedContentLoading := False\<rparr>\<rparr>)))
         | _ \<Rightarrow> c)
      else c)"

fun run :: "env \<Rightarrow> event list \<Rightarrow> config \<Rightarrow> config" where
  "run env [] c = c"
| "run env (e # es) c = run env es (step env e c)"

subsection \<open>The decision table of the specification\<close>






subsection \<open>Examples\<close>

text \<open>
  The surroundings of the examples. With the component's file as it is,
  \<^verbatim>\<open>getDocumentIdFromPath\<close> is an unbound name, and calling it throws. The strings
  of the examples are ASCII, but for two that hold an unpaired surrogate, which the
  case conversion leaves as it is.
\<close>

definition sample_env :: env where
  "sample_env =
     \<lparr>lowerNonAscii = (\<lambda>s. s),
      getDocumentIdFromPath = (\<lambda>path. Inl (Error (js ''getDocumentIdFromPath is not defined'')))\<rparr>"

definition preview :: "jsstring \<Rightarrow> props" where
  "preview name =
     \<lparr>fileName = name, filePath = None, documentId = None, isOpen = True,
      mockOriginalContent = None, mockIndexedContent = None\<rparr>"


definition pdf_mock :: props where
  "pdf_mock = (preview (js ''report.pdf''))\<lparr>mockOriginalContent := Some (js ''hello'')\<rparr>"

definition png_mock :: props where
  "png_mock = (preview (js ''pic.png''))\<lparr>mockOriginalContent := Some (js ''hi'')\<rparr>"

definition txt_with_id :: props where
  "txt_with_id = (preview (js ''a.txt''))\<lparr>documentId := Some (js ''d1'')\<rparr>"

definition docx_with_id :: props where
  "docx_with_id = (preview (js ''report.docx''))\<lparr>documentId := Some (js ''d2'')\<rparr>"

definition mock_both :: props where
  "mock_both =
     (preview (js ''notes.txt''))\<lparr>mockOriginalContent := Some (js ''hello''),
                                   mockIndexedContent := Some (js ''demo'')\<rparr>"

definition mock_original :: props where
  "mock_original = (preview (js ''notes.txt''))\<lparr>mockOriginalContent := Some (js ''hello'')\<rparr>"

text \<open>
  A file name and a document identifier with an unpaired surrogate:
  \<^verbatim>\<open>encodeURIComponent\<close> throws on them.
\<close>

definition unpaired_name :: props where
  "unpaired_name = preview (js ''a'' @ [0xD800])"

definition unpaired_id :: props where
  "unpaired_id = (preview (js ''a.txt''))\<lparr>documentId := Some [0xDC00]\<rparr>"


definition indexed_ok :: "event list" where
  "indexed_ok = [IdxResponse 0 (Inr (True, js ''OK'')), IdxJson 0 (Inr (js ''indexed text''))]"

definition original_ok :: "event list" where
  "original_ok =
     [OrigResponse 0 (Inr (True, js ''OK'')), OrigBlob 0 (Inr (js ''blob:1'')),
      OrigText 0 (Inr (js ''hello''))]"

definition not_found :: "(bool \<times> jsstring) settled" where
  "not_found = Inr (False, js ''Not Found'')"

text \<open>
  Reopening with \<open>b.txt\<close> while the fetch for \<open>a.txt\<close> is pending; the fetch for
  \<open>b.txt\<close> resolves first, the one for \<open>a.txt\<close> after it.
\<close>

definition reopen_race :: "event list" where
  "reopen_race =
     [Render (preview (js ''b.txt'')),
      OrigResponse 1 (Inr (True, js ''OK'')), OrigBlob 1 (Inr (js ''blob:2'')),
      OrigText 1 (Inr (js ''new'')),
      OrigResponse 0 (Inr (True, js ''OK'')), OrigBlob 0 (Inr (js ''blob:1'')),
      OrigText 0 (Inr (js ''old''))]"

text \<open>An image is fetched, then the modal is closed.\<close>

definition image_session :: "event list" where
  "image_session =
     [OrigResponse 0 (Inr (True, js ''OK'')), OrigBlob 0 (Inr (js ''blob:1'')),
      Render ((preview (js ''pic.png''))\<lparr>isOpen := False\<rparr>)]"

text \<open>
  \<open>notes.txt\<close> is previewed and closed, then \<open>report.docx\<close> is opened and its fetch
  succeeds.
\<close>

definition txt_then_docx :: "event list" where
  "txt_then_docx =
     [OrigResponse 0 (Inr (True, js ''OK'')), OrigBlob 0 (Inr (js ''blob:1'')),
      OrigText 0 (Inr (js ''secret'')),
      Render ((preview (js ''notes.txt''))\<lparr>isOpen := False\<rparr>),
      Render (preview (js ''report.docx'')),
      OrigResponse 1 (Inr (True, js ''OK'')), OrigBlob 1 (Inr (js ''blob:2''))]"

text \<open>
  \<open>a.pdf\<close> is fetched without mock content, then the component is rendered with
  \<open>b.pdf\<close> and mock content.
\<close>

definition pdf_then_mock :: "event list" where
  "pdf_then_mock =
     [OrigResponse 0 (Inr (True, js ''OK'')), OrigBlob 0 (Inr (js ''blob:1'')),
      Render ((preview (js ''b.pdf''))\<lparr>mockOriginalContent := Some (js ''hello'')\<rparr>)]"

text \<open>
  Configurations of the examples. In the first three, \<open>a.txt\<close> was opened with a
  document identifier: both contents are loaded; the original is loaded and the
  indexed fetch has no response yet; the original is loaded and the indexed fetch has
  its response, not yet its body. In the fourth the indexed content is loaded and the
  original fetch has no response yet.
\<close>

definition loaded_txt :: config where
  "loaded_txt = run sample_env (original_ok @ indexed_ok) (mount sample_env txt_with_id)"

definition awaiting_response :: config where
  "awaiting_response = run sample_env original_ok (mount sample_env txt_with_id)"

definition awaiting_json :: config where
  "awaiting_json =
     run sample_env (original_ok @ [IdxResponse 0 (Inr (True, js ''OK''))])
       (mount sample_env txt_with_id)"


text \<open>
  \<open>a.txt\<close> was opened with a document identifier: both fetches got a 404; the
  original content is loaded and the indexed fetch got a 404. And \<open>a.txt\<close> was
  opened without identifier and without path, and its original content is loaded.
\<close>

definition both_failed :: config where
  "both_failed =
     run sample_env [OrigResponse 0 not_found, IdxResponse 0 not_found]
       (mount sample_env txt_with_id)"

definition indexed_failed :: config where
  "indexed_failed =
     run sample_env (original_ok @ [IdxResponse 0 not_found]) (mount sample_env txt_with_id)"

definition loaded_without_id :: config where
  "loaded_without_id = run sample_env original_ok (mount sample_env (preview (js ''a.txt'')))"

text \<open>
  Configurations with stale fetches. The modal was reopened with \<open>b.txt\<close> while the
  fetches for \<open>a.txt\<close> were pending. In the first, the text of \<open>b.txt\<close> is displayed
  and the fetch for \<open>a.txt\<close> waits for its text. In the second, the fetch for
  \<open>a.txt\<close> waits for its body. In the third, the indexed fetch for \<open>a.txt\<close> waits
  for its body.
\<close>

definition stale_text_pending :: config where
  "stale_text_pending =
     run sample_env (butlast reopen_race) (mount sample_env (preview (js ''a.txt'')))"

definition stale_blob_pending :: config where
  "stale_blob_pending =
     run sample_env [Render (preview (js ''b.txt'')), OrigResponse 0 (Inr (True, js ''OK''))]
       (mount sample_env (preview (js ''a.txt'')))"

definition stale_json_pending :: config where
  "stale_json_pending =
     run sample_env
       [Render ((preview (js ''b.txt''))\<lparr>documentId := Some (js ''d2'')\<rparr>),
        IdxResponse 0 (Inr (True, js ''OK''))]
       (mount sample_env txt_with_id)"

subsection \<open>Vocabulary of the properties\<close>

text \<open>The events of an indexed-content fetch.\<close>

fun idx_event :: "event \<Rightarrow> bool" where
  "idx_event (IdxResponse n r) = True"
| "idx_event (IdxJson n r) = True"
| "idx_event e = False"

text \<open>
  A failure of a promise: a rejection, or a response that is not \<^verbatim>\<open>ok\<close>.
\<close>

definition rejected :: "'a settled \<Rightarrow> bool" where
  "rejected r = (case r of Inl x \<Rightarrow> True | Inr v \<Rightarrow> False)"

definition not_ok :: "(bool \<times> jsstring) settled \<Rightarrow> bool" where
  "not_ok r = (case r of Inl x \<Rightarrow> True | Inr (ok, statusText) \<Rightarrow> \<not> ok)"


text \<open>The same for a pending indexed-content fetch.\<close>

fun idx_fails :: "event \<Rightarrow> config \<Rightarrow> bool" where
  "idx_fails (IdxResponse n r) c =
     (n < length (batches c) \<and> not_ok r \<and> idx (batches c ! n) = IdxAwaitResponse)"
| "idx_fails (IdxJson n r) c =
     (n < length (batches c) \<and> rejected r \<and> idx (batches c ! n) = IdxAwaitJson)"
| "idx_fails e c = False"

text \<open>
  The request supplies no document identifier and none can be derived from its path:
  \<^verbatim>\<open>documentId\<close> is falsy, and \<^verbatim>\<open>filePath\<close> is falsy or
  \<^verbatim>\<open>getDocumentIdFromPath\<close> throws or returns the empty string for it.
\<close>

definition no_identifier :: "env \<Rightarrow> props \<Rightarrow> bool" where
  "no_identifier env p = (case docId env p of Inl x \<Rightarrow> True | Inr d \<Rightarrow> d = [])"

text \<open>
  No request can be made for the indexed content: there is no identifier, or
  \<^verbatim>\<open>encodeURIComponent\<close> throws on it.
\<close>

definition no_indexed_request :: "env \<Rightarrow> props \<Rightarrow> bool" where
  "no_indexed_request env p =
     (case docId env p of Inl x \<Rightarrow> True | Inr d \<Rightarrow> d = [] \<or> lone_surrogate d)"

text \<open>A render whose props carry truthy mock original content (any other event passes).\<close>

fun mock_render :: "event \<Rightarrow> bool" where
  "mock_render (Render p) = truthy (mockOriginalContent p)"
| "mock_render e = True"

text \<open>The two renderers of a binary resource.\<close>

fun binary_renderer :: "render_instruction \<Rightarrow> bool" where
  "binary_renderer (PdfViewer src) = True"
| "binary_renderer (ImageView src alt) = True"
| "binary_renderer r = False"

text \<open>No original-content fetch is in flight.\<close>

definition no_original_in_flight :: "config \<Rightarrow> bool" where
  "no_original_in_flight c = list_all (\<lambda>b. orig b = OrigDone) (batches c)"

text \<open>The log of browser calls holds no \<^verbatim>\<open>URL.revokeObjectURL\<close>.\<close>

fun is_revoke :: "effect \<Rightarrow> bool" where
  "is_revoke (RevokeObjectURL u) = True"
| "is_revoke x = False"

definition never_revoked :: "config \<Rightarrow> bool" where
  "never_revoked c = list_all (\<lambda>x. \<not> is_revoke x) (effects c)"

section \<open>String literals\<close>

lemma unat_of_char: "unat (of_char c :: 16 word) = of_char c"
proof -
  have "(of_char c :: 16 word) = of_nat (of_char c)"
    by (simp add: of_nat_of_char)
  moreover have "(of_char c :: nat) < 2 ^ 16"
    using nat_of_char_less_256 [of c] by (rule less_trans) simp
  ultimately show ?thesis
    by (simp add: unat_of_nat del: of_nat_of_char)
qed

lemma inj_of_char_word: "inj (of_char :: char \<Rightarrow> 16 word)"
proof (rule injI)
  fix c d :: char
  assume "(of_char c :: 16 word) = of_char d"
  then have "unat (of_char c :: 16 word) = unat (of_char d :: 16 word)" by simp
  then have "(of_char c :: nat) = of_char d" by (simp only: unat_of_char)
  then show "c = d" by simp
qed

lemma js_eq_iff [simp]: "(js a = js b) = (a = b)"
  unfolding js_def by (simp add: inj_map_eq_map inj_of_char_word)

lemma js_dot: "js ''.'' = [of_char CHR ''.'']"
  by (simp add: js_def)

section \<open>The extension classifier\<close>

lemma split_not_Nil: "split sep s \<noteq> []"
  by (induction s) (auto split: list.splits)

lemma split_no_sep: "sep \<notin> set s \<Longrightarrow> split sep s = [s]"
  by (induction s) auto

lemma split_append_sep: "split sep (pre @ sep # rest) = split sep pre @ split sep rest"
proof (induction pre)
  case Nil
  show ?case by simp
next
  case (Cons c pre)
  obtain x xs where x: "split sep pre = x # xs"
    using split_not_Nil [of sep pre] by (cases "split sep pre") auto
  show ?case
  proof (cases "c = sep")
    case True
    then show ?thesis using Cons by simp
  next
    case False
    then show ?thesis using Cons x by simp
  qed
qed

lemma last_split_suffix:
  assumes "sep \<notin> set suf"
  shows "last (split sep (pre @ sep # suf)) = suf"
  using assms by (simp add: split_append_sep split_no_sep)

lemma fileExt_last:
  "fileExt env f = toLowerCase env (last (split (of_char CHR ''.'') f))"
  by (simp add: fileExt_def pop_def split_not_Nil)

lemma fileExt_suffix:
  "of_char CHR ''.'' \<notin> set suf \<Longrightarrow> fileExt env (pre @ js ''.'' @ suf) = toLowerCase env suf"
  by (simp add: fileExt_last last_split_suffix js_dot)

lemmas ext_defs =
  isPdf_def isImage_def isTextFile_def isDocument_def isSpreadsheet_def isCode_def

lemma unrecognised_is_other:
  "e \<notin> set [js ''pdf'', js ''jpg'', js ''jpeg'', js ''png'', js ''gif'', js ''webp'', js ''svg'',
              js ''txt'', js ''md'', js ''markdown'', js ''json'', js ''csv'', js ''xml'',
              js ''html'', js ''docx'', js ''doc'', js ''rtf'', js ''xlsx'', js ''xls'',
              js ''js'', js ''ts'', js ''jsx'', js ''tsx'', js ''py'', js ''java'', js ''c'',
              js ''cpp'', js ''rb'', js ''php'']
   \<Longrightarrow> \<not> isPdf e \<and> \<not> isImage e \<and> \<not> isTextFile e \<and> \<not> isDocument e
       \<and> \<not> isSpreadsheet e \<and> \<not> isCode e"
  by (simp add: ext_defs)

lemma isPdf_exclusive:
  "isPdf e \<Longrightarrow> \<not> isImage e \<and> \<not> isTextFile e \<and> \<not> isDocument e \<and> \<not> isSpreadsheet e \<and> \<not> isCode e"
  by (simp add: ext_defs)

lemma isImage_exclusive:
  "isImage e \<Longrightarrow> \<not> isPdf e \<and> \<not> isTextFile e \<and> \<not> isDocument e \<and> \<not> isSpreadsheet e \<and> \<not> isCode e"
  by (auto simp add: ext_defs)

lemma isDocument_exclusive:
  "isDocument e \<Longrightarrow> \<not> isPdf e \<and> \<not> isImage e \<and> \<not> isTextFile e \<and> \<not> isSpreadsheet e \<and> \<not> isCode e"
  by (auto simp add: ext_defs)

lemma isCode_exclusive:
  "isCode e \<Longrightarrow> \<not> isPdf e \<and> \<not> isImage e \<and> \<not> isTextFile e \<and> \<not> isDocument e \<and> \<not> isSpreadsheet e"
  by (auto simp add: ext_defs)

lemma text_spreadsheet_overlap: "(isTextFile e \<and> isSpreadsheet e) = (e = js ''csv'')"
  by (auto simp add: isTextFile_def isSpreadsheet_def)

lemma at_most_one_table:
  "length (filter (\<lambda>b. b)
     [isPdf e, isImage e, isDocument e, isCode e, isTextFile e \<or> isSpreadsheet e]) \<le> 1"
proof -
  consider "isPdf e" | "isImage e" | "isDocument e" | "isCode e"
    | "\<not> isPdf e \<and> \<not> isImage e \<and> \<not> isDocument e \<and> \<not> isCode e"
    by blast
  then show ?thesis
  proof cases
    case 1
    then show ?thesis using isPdf_exclusive [of e] by simp
  next
    case 2
    then show ?thesis using isImage_exclusive [of e] by simp
  next
    case 3
    then show ?thesis using isDocument_exclusive [of e] by simp
  next
    case 4
    then show ?thesis using isCode_exclusive [of e] by simp
  next
    case 5
    then show ?thesis by simp
  qed
qed

text \<open>
  C7, as the claim states it, fails: a name without any \<open>.\<close> is split into one piece,
  the name itself, which \<^verbatim>\<open>pop\<close> returns; the file named \<open>pdf\<close> has no extension
  and is classified as a pdf, not as other. And \<open>csv\<close> is in two tables, text and
  spreadsheet, so \<open>data.csv\<close> gets two categories.
\<close>

theorem classifier_no_extension_counterexample:
  "of_char CHR ''.'' \<notin> set (js ''pdf'') \<and> isPdf (fileExt sample_env (js ''pdf''))
   \<and> isTextFile (fileExt sample_env (js ''data.csv''))
   \<and> isSpreadsheet (fileExt sample_env (js ''data.csv''))"
  by code_simp

text \<open>
  C7, amended: for every file name that contains a \<open>.\<close>, the predicates are functions
  of the lowercase suffix after the last \<open>.\<close>; an extension that is in none of the
  tables (the empty one included) satisfies no predicate, which is the category other;
  an extension satisfies at most one of pdf, image, document, code and
  text-or-spreadsheet, the text and the spreadsheet tables sharing \<open>csv\<close> and nothing
  else. The functions are total: no input makes the expression throw.
\<close>

theorem classifier_of_suffix:
  "(f = pre @ js ''.'' @ suf \<and> of_char CHR ''.'' \<notin> set suf \<longrightarrow>
      fileExt env f = toLowerCase env suf)
   \<and> (fileExt env f \<notin> set [js ''pdf'', js ''jpg'', js ''jpeg'', js ''png'', js ''gif'',
              js ''webp'', js ''svg'', js ''txt'', js ''md'', js ''markdown'', js ''json'',
              js ''csv'', js ''xml'', js ''html'', js ''docx'', js ''doc'', js ''rtf'',
              js ''xlsx'', js ''xls'', js ''js'', js ''ts'', js ''jsx'', js ''tsx'', js ''py'',
              js ''java'', js ''c'', js ''cpp'', js ''rb'', js ''php'']
        \<longrightarrow> \<not> isPdf (fileExt env f) \<and> \<not> isImage (fileExt env f)
            \<and> \<not> isTextFile (fileExt env f) \<and> \<not> isDocument (fileExt env f)
            \<and> \<not> isSpreadsheet (fileExt env f) \<and> \<not> isCode (fileExt env f))
   \<and> length (filter (\<lambda>b. b)
        [isPdf (fileExt env f), isImage (fileExt env f), isDocument (fileExt env f),
         isCode (fileExt env f), isTextFile (fileExt env f) \<or> isSpreadsheet (fileExt env f)])
       \<le> 1
   \<and> (isTextFile (fileExt env f) \<and> isSpreadsheet (fileExt env f))
       = (fileExt env f = js ''csv'')"
proof -
  have a: "f = pre @ js ''.'' @ suf \<and> of_char CHR ''.'' \<notin> set suf \<longrightarrow>
      fileExt env f = toLowerCase env suf"
    using fileExt_suffix [of suf env pre] by simp
  have b: "fileExt env f \<notin> set [js ''pdf'', js ''jpg'', js ''jpeg'', js ''png'', js ''gif'',
              js ''webp'', js ''svg'', js ''txt'', js ''md'', js ''markdown'', js ''json'',
              js ''csv'', js ''xml'', js ''html'', js ''docx'', js ''doc'', js ''rtf'',
              js ''xlsx'', js ''xls'', js ''js'', js ''ts'', js ''jsx'', js ''tsx'', js ''py'',
              js ''java'', js ''c'', js ''cpp'', js ''rb'', js ''php'']
        \<longrightarrow> \<not> isPdf (fileExt env f) \<and> \<not> isImage (fileExt env f)
            \<and> \<not> isTextFile (fileExt env f) \<and> \<not> isDocument (fileExt env f)
            \<and> \<not> isSpreadsheet (fileExt env f) \<and> \<not> isCode (fileExt env f)"
    by (rule impI) (rule unrecognised_is_other)
  show ?thesis
    by (rule conjI [OF a conjI [OF b conjI [OF at_most_one_table text_spreadsheet_overlap]]])
qed

theorem classifier_of_suffix_witness:
  "(js ''archive.TAR'' = js ''archive'' @ js ''.'' @ js ''TAR''
    \<and> of_char CHR ''.'' \<notin> set (js ''TAR''))
   \<and> fileExt sample_env (js ''archive.TAR'') = toLowerCase sample_env (js ''TAR'')
   \<and> toLowerCase sample_env (js ''TAR'') = js ''tar''
   \<and> (\<not> isPdf (fileExt sample_env (js ''archive.TAR''))
       \<and> \<not> isImage (fileExt sample_env (js ''archive.TAR''))
       \<and> \<not> isTextFile (fileExt sample_env (js ''archive.TAR''))
       \<and> \<not> isDocument (fileExt sample_env (js ''archive.TAR''))
       \<and> \<not> isSpreadsheet (fileExt sample_env (js ''archive.TAR''))
       \<and> \<not> isCode (fileExt sample_env (js ''archive.TAR'')))"
proof -
  note t = classifier_of_suffix
    [where f = "js ''archive.TAR''" and pre = "js ''archive''" and suf = "js ''TAR''"
       and env = sample_env]
  have h: "js ''archive.TAR'' = js ''archive'' @ js ''.'' @ js ''TAR''
    \<and> of_char CHR ''.'' \<notin> set (js ''TAR'')"
    by code_simp
  have x: "fileExt sample_env (js ''archive.TAR'') = toLowerCase sample_env (js ''TAR'')"
    by (rule mp [OF t [THEN conjunct1] h])
  have e: "toLowerCase sample_env (js ''TAR'') = js ''tar''" by code_simp
  have n: "fileExt sample_env (js ''archive.TAR'')
      \<notin> set [js ''pdf'', js ''jpg'', js ''jpeg'', js ''png'', js ''gif'',
              js ''webp'', js ''svg'', js ''txt'', js ''md'', js ''markdown'', js ''json'',
              js ''csv'', js ''xml'', js ''html'', js ''docx'', js ''doc'', js ''rtf'',
              js ''xlsx'', js ''xls'', js ''js'', js ''ts'', js ''jsx'', js ''tsx'', js ''py'',
              js ''java'', js ''c'', js ''cpp'', js ''rb'', js ''php'']"
    by code_simp
  note o = mp [OF t [THEN conjunct2, THEN conjunct1] n]
  show ?thesis
    by (rule conjI [OF h conjI [OF x conjI [OF e o]]])
qed

section \<open>Icon selection against the modal's predicates\<close>

lemma getFileIcon_ext:
  "getFileIcon env f =
     (if fileExt env f \<in> set [js ''pdf''] then FiFile_red
      else if fileExt env f \<in> set [js ''jpg'', js ''jpeg'', js ''png'', js ''gif'', js ''webp'',
                                    js ''svg'']
        then FileImage_blue
      else if fileExt env f \<in> set [js ''js'', js ''ts'', js ''jsx'', js ''tsx'', js ''py'',
                                    js ''java'', js ''c'', js ''cpp'', js ''php'', js ''rb'',
                                    js ''go''] then FileCode_green
      else FileText_grey)"
  by (simp only: getFileIcon_def fileExt_def Let_def)

lemma code_tables:
  "e \<noteq> js ''go'' \<Longrightarrow>
   (e \<in> set [js ''js'', js ''ts'', js ''jsx'', js ''tsx'', js ''py'', js ''java'', js ''c'',
             js ''cpp'', js ''php'', js ''rb'', js ''go''])
     = isCode e"
  by (auto simp add: isCode_def)

text \<open>
  C6, as the claim states it, fails. The icon table has \<open>go\<close> among the code
  extensions and the modal's \<open>isCode\<close> has not: \<open>main.go\<close> gets the code icon and is
  no code file for the modal. And the icon logic has one class for everything that is
  not pdf, image or code: \<open>a.docx\<close> and \<open>a.txt\<close> get the same icon, while the modal
  takes the first as a document and the second as text.
\<close>

theorem icon_and_modal_differ_counterexample:
  "getFileIcon sample_env (js ''main.go'') = FileCode_green
   \<and> \<not> isCode (fileExt sample_env (js ''main.go''))
   \<and> getFileIcon sample_env (js ''a.docx'') = getFileIcon sample_env (js ''a.txt'')
   \<and> isDocument (fileExt sample_env (js ''a.docx''))
   \<and> \<not> isDocument (fileExt sample_env (js ''a.txt''))"
  by code_simp

text \<open>
  C6, amended: both logics compute the extension with the same expression, and for
  every file name whose extension is not \<open>go\<close> the icon is determined by the modal's
  predicates: the pdf icon exactly for \<open>isPdf\<close>, the image icon exactly for \<open>isImage\<close>,
  the code icon exactly for \<open>isCode\<close>, and the one remaining icon for everything else
  (the modal's text, document, spreadsheet and unclassified extensions).
\<close>

theorem icon_follows_modal_predicates:
  "fileExt env f \<noteq> js ''go'' \<Longrightarrow>
   getFileIcon env f =
     (if isPdf (fileExt env f) then FiFile_red
      else if isImage (fileExt env f) then FileImage_blue
      else if isCode (fileExt env f) then FileCode_green
      else FileText_grey)"
proof -
  assume h: "fileExt env f \<noteq> js ''go''"
  have p: "(fileExt env f \<in> set [js ''pdf'']) = isPdf (fileExt env f)"
    by (simp add: isPdf_def)
  have i: "(fileExt env f \<in> set [js ''jpg'', js ''jpeg'', js ''png'', js ''gif'', js ''webp'',
                                  js ''svg'']) = isImage (fileExt env f)"
    unfolding isImage_def by (rule refl)
  show ?thesis
    by (simp only: getFileIcon_ext p i code_tables [OF h])
qed

theorem icon_follows_modal_predicates_witness:
  "fileExt sample_env (js ''App.TSX'') \<noteq> js ''go'' \<and> isCode (fileExt sample_env (js ''App.TSX''))
   \<and> getFileIcon sample_env (js ''App.TSX'') = FileCode_green"
proof -
  have h: "fileExt sample_env (js ''App.TSX'') \<noteq> js ''go''" by code_simp
  have c: "isCode (fileExt sample_env (js ''App.TSX''))" by code_simp
  have p: "\<not> isPdf (fileExt sample_env (js ''App.TSX''))" by code_simp
  have i: "\<not> isImage (fileExt sample_env (js ''App.TSX''))" by code_simp
  have "getFileIcon sample_env (js ''App.TSX'') = FileCode_green"
    by (simp only: icon_follows_modal_predicates [OF h] c p i if_True if_False)
  with h c show ?thesis by blast
qed

section \<open>The renderer against the decision table\<close>









section \<open>Basic facts about the steps\<close>

lemma set_orig_fields [simp]:
  "st (set_orig n x c) = st c"
  "cur (set_orig n x c) = cur c"
  "effects (set_orig n x c) = effects c"
  "batches (set_orig n x c) = (batches c)[n := (batches c ! n)\<lparr>orig := x\<rparr>]"
  by (simp_all add: set_orig_def)

lemma set_idx_fields [simp]:
  "st (set_idx n x c) = st c"
  "cur (set_idx n x c) = cur c"
  "effects (set_idx n x c) = effects c"
  "batches (set_idx n x c) = (batches c)[n := (batches c ! n)\<lparr>idx := x\<rparr>]"
  by (simp_all add: set_idx_def)

lemma promise_all_finally_fields [simp]:
  "cur (promise_all_finally n c) = cur c"
  "effects (promise_all_finally n c) = effects c"
  "batches (promise_all_finally n c) = batches c"
  by (simp_all add: promise_all_finally_def)

lemma promise_all_finally_cells [simp]:
  "originalContentLoading (st (promise_all_finally n c)) = originalContentLoading (st c)"
  "indexedContentLoading (st (promise_all_finally n c)) = indexedContentLoading (st c)"
  "originalContent (st (promise_all_finally n c)) = originalContent (st c)"
  "indexedContent (st (promise_all_finally n c)) = indexedContent (st c)"
  "fileUrl (st (promise_all_finally n c)) = fileUrl (st c)"
  "error (st (promise_all_finally n c)) = error (st c)"
  by (simp_all add: promise_all_finally_def)

lemma orig_failed_fields [simp]:
  "cur (orig_failed x c) = cur c"
  "batches (orig_failed x c) = batches c"
  "effects (orig_failed x c) = effects c @ [ConsoleError (js ''Error fetching original file:'') x]"
  "st (orig_failed x c) =
     (st c)\<lparr>error := Some (js ''Failed to load original file content.''),
            originalContentLoading := False\<rparr>"
  by (simp_all add: orig_failed_def)

lemma idx_failed_fields [simp]:
  "cur (idx_failed x c) = cur c"
  "batches (idx_failed x c) = batches c"
  "effects (idx_failed x c) = effects c @ [ConsoleError (js ''Error fetching indexed content:'') x]"
  "st (idx_failed x c) =
     (st c)\<lparr>indexedContent := js ''Indexed content is not available for this file.'',
            indexedContentLoading := False\<rparr>"
  by (simp_all add: idx_failed_def)

lemma useEffect_unfold:
  "useEffect env p c =
     (if isOpen p then
        promise_all_finally
          (length (batches (fst (fetchIndexedContent env p (fst (fetchOriginalContent env p
             (c\<lparr>st := (st c)\<lparr>isLoading := True, error := None\<rparr>\<rparr>)))))))
          ((fst (fetchIndexedContent env p (fst (fetchOriginalContent env p
             (c\<lparr>st := (st c)\<lparr>isLoading := True, error := None\<rparr>\<rparr>)))))
           \<lparr>batches :=
              batches (fst (fetchIndexedContent env p (fst (fetchOriginalContent env p
                (c\<lparr>st := (st c)\<lparr>isLoading := True, error := None\<rparr>\<rparr>)))))
              @ [\<lparr>orig = snd (fetchOriginalContent env p
                          (c\<lparr>st := (st c)\<lparr>isLoading := True, error := None\<rparr>\<rparr>)),
                  idx = snd (fetchIndexedContent env p (fst (fetchOriginalContent env p
                          (c\<lparr>st := (st c)\<lparr>isLoading := True, error := None\<rparr>\<rparr>))))\<rparr>]\<rparr>)
      else c)"
  by (simp add: useEffect_def Let_def case_prod_beta)

lemma fetchOriginalContent_batches [simp]:
  "batches (fst (fetchOriginalContent env p c)) = batches c"
  by (simp add: fetchOriginalContent_def Let_def)

lemma fetchIndexedContent_batches [simp]:
  "batches (fst (fetchIndexedContent env p c)) = batches c"
  by (simp add: fetchIndexedContent_def Let_def split: sum.splits)

lemma fetchOriginalContent_st:
  "st (fst (fetchOriginalContent env p c)) =
     (if truthy (mockOriginalContent p)
      then (st c)\<lparr>originalContent := str_of (mockOriginalContent p),
                  originalContentLoading := False\<rparr>
      else if lone_surrogate (fileId p)
      then (st c)\<lparr>error := Some (js ''Failed to load original file content.''),
                  originalContentLoading := False\<rparr>
      else (st c)\<lparr>originalContentLoading := True\<rparr>)"
  by (simp add: fetchOriginalContent_def Let_def)

lemma fetchIndexedContent_cells [simp]:
  "isLoading (st (fst (fetchIndexedContent env p c))) = isLoading (st c)"
  "originalContentLoading (st (fst (fetchIndexedContent env p c))) = originalContentLoading (st c)"
  "originalContent (st (fst (fetchIndexedContent env p c))) = originalContent (st c)"
  "fileUrl (st (fst (fetchIndexedContent env p c))) = fileUrl (st c)"
  "error (st (fst (fetchIndexedContent env p c))) = error (st c)"
  by (simp_all add: fetchIndexedContent_def Let_def split: sum.splits)

text \<open>The view is a function of the cells of the original content.\<close>

lemma modal_view_cong:
  "isLoading s = isLoading s' \<Longrightarrow> originalContentLoading s = originalContentLoading s' \<Longrightarrow>
   error s = error s' \<Longrightarrow> fileUrl s = fileUrl s' \<Longrightarrow>
   originalContent s = originalContent s' \<Longrightarrow>
   modal_view env p s = modal_view env p s'"
  by (simp add: modal_view_def renderFileContent_def Let_def)

lemma view_ignores_indexed:
  "modal_view env p (s\<lparr>indexedContent := x, indexedContentLoading := y\<rparr>) = modal_view env p s"
  by (rule modal_view_cong) simp_all

subsection \<open>No step revokes an object URL\<close>

lemma fetchOriginalContent_never_revoked:
  "never_revoked c \<Longrightarrow> never_revoked (fst (fetchOriginalContent env p c))"
  by (simp add: fetchOriginalContent_def never_revoked_def Let_def)

lemma fetchIndexedContent_never_revoked:
  "never_revoked c \<Longrightarrow> never_revoked (fst (fetchIndexedContent env p c))"
  by (simp add: fetchIndexedContent_def never_revoked_def Let_def split: sum.splits)

lemma useEffect_never_revoked:
  "never_revoked c \<Longrightarrow> never_revoked (useEffect env p c)"
proof -
  assume h: "never_revoked c"
  have 1: "never_revoked (c\<lparr>st := (st c)\<lparr>isLoading := True, error := None\<rparr>\<rparr>)"
    using h by (simp add: never_revoked_def)
  note 2 = fetchOriginalContent_never_revoked [OF 1, of env p]
  note 3 = fetchIndexedContent_never_revoked [OF 2, of env p]
  show ?thesis
    using h 3
    by (simp add: useEffect_unfold never_revoked_def)
qed

lemma step_never_revoked:
  "never_revoked c \<Longrightarrow> never_revoked (step env e c)"
proof (cases e)
  case (Render p)
  assume h: "never_revoked c"
  have "never_revoked (c\<lparr>cur := p\<rparr>)" using h by (simp add: never_revoked_def)
  then show ?thesis
    using Render useEffect_never_revoked [of "c\<lparr>cur := p\<rparr>" env p] by simp
next
  case (OrigResponse n r)
  assume "never_revoked c"
  then show ?thesis using OrigResponse
    by (simp add: never_revoked_def orig_catch_def split: orig_stage.splits sum.splits prod.splits)
next
  case (OrigBlob n r)
  assume "never_revoked c"
  then show ?thesis using OrigBlob
    by (simp add: never_revoked_def orig_catch_def Let_def split: orig_stage.splits sum.splits)
next
  case (OrigText n r)
  assume "never_revoked c"
  then show ?thesis using OrigText
    by (simp add: never_revoked_def orig_catch_def split: orig_stage.splits sum.splits)
next
  case (IdxResponse n r)
  assume "never_revoked c"
  then show ?thesis using IdxResponse
    by (simp add: never_revoked_def idx_catch_def split: idx_stage.splits sum.splits prod.splits)
next
  case (IdxJson n r)
  assume "never_revoked c"
  then show ?thesis using IdxJson
    by (simp add: never_revoked_def idx_catch_def split: idx_stage.splits sum.splits)
qed

lemma run_never_revoked:
  "never_revoked c \<Longrightarrow> never_revoked (run env es c)"
  by (induction es arbitrary: c) (simp_all add: step_never_revoked)

lemma mount_never_revoked: "never_revoked (mount env p)"
  unfolding mount_def by (rule useEffect_never_revoked) (simp add: never_revoked_def)

lemma not_revoke_count:
  "list_all (\<lambda>x. \<not> is_revoke x) xs \<Longrightarrow> count_list xs (RevokeObjectURL u) = 0"
  by (induction xs) auto

lemma close_changes_nothing:
  "step env (Render (p\<lparr>isOpen := False\<rparr>)) c = c\<lparr>cur := p\<lparr>isOpen := False\<rparr>\<rparr>"
  by (simp add: useEffect_def)

text \<open>
  C3, as the claim states it, fails: an image is fetched, its object URL is created,
  the modal is closed, and the URL has not been revoked once.
\<close>

theorem object_url_leaked_counterexample:
  "CreateObjectURL (js ''blob:1'')
     \<in> set (effects (run sample_env image_session (mount sample_env (preview (js ''pic.png'')))))
   \<and> \<not> isOpen (cur (run sample_env image_session (mount sample_env (preview (js ''pic.png'')))))
   \<and> count_list (effects (run sample_env image_session
                             (mount sample_env (preview (js ''pic.png'')))))
        (RevokeObjectURL (js ''blob:1'')) \<noteq> 1"
  by code_simp

text \<open>
  C3, amended: no transition revokes an object URL. In every session the number of
  revocations of any URL is zero, and the close transition (a render with
  \<^verbatim>\<open>isOpen = false\<close>) changes nothing but the current props: the URL stays in
  \<^verbatim>\<open>fileUrl\<close>.
\<close>

theorem object_url_never_revoked:
  "count_list (effects (run env es (mount env p))) (RevokeObjectURL u) = 0
   \<and> step env (Render (p'\<lparr>isOpen := False\<rparr>)) c = c\<lparr>cur := p'\<lparr>isOpen := False\<rparr>\<rparr>"
proof -
  have "never_revoked (run env es (mount env p))"
    by (rule run_never_revoked [OF mount_never_revoked])
  then have "count_list (effects (run env es (mount env p))) (RevokeObjectURL u) = 0"
    by (simp add: never_revoked_def not_revoke_count)
  then show ?thesis
    using close_changes_nothing [of env p' c] by simp
qed

section \<open>Independence of the two fetches\<close>












section \<open>Reopening while fetches are in flight\<close>

lemma useEffect_batches:
  "take (length (batches c)) (batches (useEffect env p c)) = batches c"
  by (simp add: useEffect_unfold)

lemma render_keeps_batches:
  "take (length (batches c)) (batches (step env (Render p) c)) = batches c"
  using useEffect_batches [of "c\<lparr>cur := p\<rparr>" env p] by simp

lemma textual_not_binary:
  "isTextFile e \<or> isCode e \<or> isSpreadsheet e \<Longrightarrow> \<not> isPdf e \<and> \<not> isImage e \<and> \<not> isDocument e"
  using isPdf_exclusive [of e] isImage_exclusive [of e] isDocument_exclusive [of e] by blast

lemma text_result_applied:
  "n < length (batches c) \<and> orig (batches c ! n) = OrigAwaitText \<Longrightarrow>
   originalContent (st (step env (OrigText n (Inr tx)) c)) = tx
   \<and> \<not> originalContentLoading (st (step env (OrigText n (Inr tx)) c))
   \<and> error (st (step env (OrigText n (Inr tx)) c)) = error (st c)"
  by simp

lemma text_displayed:
  assumes "originalContent s = tx" "\<not> originalContentLoading s" "\<not> isLoading s"
    "\<not> truthy (error s)" "tx \<noteq> []"
    "isTextFile (fileExt env (fileName p)) \<or> isCode (fileExt env (fileName p))
     \<or> isSpreadsheet (fileExt env (fileName p))"
  shows "body (modal_view env p s) = PreBlock (isCode (fileExt env (fileName p))) tx"
  using assms textual_not_binary [OF assms(6)]
  by (simp add: modal_view_def renderFileContent_def Let_def)

lemma url_result_applied:
  "n < length (batches c) \<and> orig (batches c ! n) = OrigAwaitBlob d \<Longrightarrow>
   fileUrl (st (step env (OrigBlob n (Inr url)) c)) = url
   \<and> download_button (modal_view env p (st (step env (OrigBlob n (Inr url)) c))) = (url \<noteq> [])"
  by (simp add: Let_def modal_view_def)

lemma indexed_result_applied:
  "n < length (batches c) \<and> idx (batches c ! n) = IdxAwaitJson \<Longrightarrow>
   indexedContent (st (step env (IdxJson n (Inr content)) c)) = content
   \<and> \<not> indexedContentLoading (st (step env (IdxJson n (Inr content)) c))"
  by simp

text \<open>
  C2, as the claim states it, fails: the modal is reopened with \<open>b.txt\<close> while the
  fetch for \<open>a.txt\<close> is pending; the fetch for \<open>b.txt\<close> resolves and its text is
  displayed; then the fetch for \<open>a.txt\<close> resolves and its text replaces it on the
  panel of \<open>b.txt\<close>.
\<close>

theorem stale_result_displayed_counterexample:
  "modal_view sample_env (cur stale_text_pending) (st stale_text_pending)
     = \<lparr>dialog_open = True, title = js ''b.txt'', body = PreBlock False (js ''new''),
        download_button = True\<rparr>
   \<and> modal_view sample_env
        (cur (run sample_env reopen_race (mount sample_env (preview (js ''a.txt'')))))
        (st (run sample_env reopen_race (mount sample_env (preview (js ''a.txt'')))))
     = \<lparr>dialog_open = True, title = js ''b.txt'', body = PreBlock False (js ''old''),
        download_button = True\<rparr>"
proof -
  have a: "let c = stale_text_pending in
      modal_view sample_env (cur c) (st c)
        = \<lparr>dialog_open = True, title = js ''b.txt'', body = PreBlock False (js ''new''),
           download_button = True\<rparr>"
    by code_simp
  have b: "let c = run sample_env reopen_race (mount sample_env (preview (js ''a.txt''))) in
      modal_view sample_env (cur c) (st c)
        = \<lparr>dialog_open = True, title = js ''b.txt'', body = PreBlock False (js ''old''),
           download_button = True\<rparr>"
    by code_simp
  show ?thesis
    by (rule conjI [OF a [unfolded Let_def] b [unfolded Let_def]])
qed

text \<open>
  C2, amended: reopening invalidates nothing. A render leaves every fetch of the
  earlier requests pending as it was, and a result of any request, stale or current,
  that settles is written to the state: the text to \<^verbatim>\<open>originalContent\<close>, the object
  URL to \<^verbatim>\<open>fileUrl\<close>, the indexed text to \<^verbatim>\<open>indexedContent\<close>. A non-empty text
  that settles, stale or not, is displayed in the panel of the current file whenever
  that file is a text, code or spreadsheet file and the panel is past loading and
  without error; an object URL that settles, stale or not, is the resource the
  Download button offers.
\<close>

theorem stale_results_are_applied:
  "take (length (batches c0)) (batches (step env (Render p) c0)) = batches c0
   \<and> (n < length (batches c) \<and> orig (batches c ! n) = OrigAwaitText \<longrightarrow>
        originalContent (st (step env (OrigText n (Inr tx)) c)) = tx
        \<and> \<not> originalContentLoading (st (step env (OrigText n (Inr tx)) c))
        \<and> (\<not> isLoading (st (step env (OrigText n (Inr tx)) c)) \<and> \<not> truthy (error (st c))
            \<and> tx \<noteq> []
            \<and> (isTextFile (fileExt env (fileName (cur c))) \<or> isCode (fileExt env (fileName (cur c)))
                \<or> isSpreadsheet (fileExt env (fileName (cur c)))) \<longrightarrow>
             body (modal_view env (cur c) (st (step env (OrigText n (Inr tx)) c)))
               = PreBlock (isCode (fileExt env (fileName (cur c)))) tx))
   \<and> (k < length (batches c2) \<and> orig (batches c2 ! k) = OrigAwaitBlob d \<longrightarrow>
        fileUrl (st (step env (OrigBlob k (Inr url)) c2)) = url
        \<and> download_button (modal_view env (cur c2) (st (step env (OrigBlob k (Inr url)) c2)))
            = (url \<noteq> []))
   \<and> (j < length (batches c3) \<and> idx (batches c3 ! j) = IdxAwaitJson \<longrightarrow>
        indexedContent (st (step env (IdxJson j (Inr content)) c3)) = content
        \<and> \<not> indexedContentLoading (st (step env (IdxJson j (Inr content)) c3)))"
proof -
  have a: "take (length (batches c0)) (batches (step env (Render p) c0)) = batches c0"
    by (rule render_keeps_batches)
  have b: "n < length (batches c) \<and> orig (batches c ! n) = OrigAwaitText \<longrightarrow>
        originalContent (st (step env (OrigText n (Inr tx)) c)) = tx
        \<and> \<not> originalContentLoading (st (step env (OrigText n (Inr tx)) c))
        \<and> (\<not> isLoading (st (step env (OrigText n (Inr tx)) c)) \<and> \<not> truthy (error (st c))
            \<and> tx \<noteq> []
            \<and> (isTextFile (fileExt env (fileName (cur c))) \<or> isCode (fileExt env (fileName (cur c)))
                \<or> isSpreadsheet (fileExt env (fileName (cur c)))) \<longrightarrow>
             body (modal_view env (cur c) (st (step env (OrigText n (Inr tx)) c)))
               = PreBlock (isCode (fileExt env (fileName (cur c)))) tx)"
  proof
    assume h: "n < length (batches c) \<and> orig (batches c ! n) = OrigAwaitText"
    note w = text_result_applied [OF h, of env tx]
    have "\<not> isLoading (st (step env (OrigText n (Inr tx)) c)) \<and> \<not> truthy (error (st c))
            \<and> tx \<noteq> []
            \<and> (isTextFile (fileExt env (fileName (cur c))) \<or> isCode (fileExt env (fileName (cur c)))
                \<or> isSpreadsheet (fileExt env (fileName (cur c)))) \<longrightarrow>
             body (modal_view env (cur c) (st (step env (OrigText n (Inr tx)) c)))
               = PreBlock (isCode (fileExt env (fileName (cur c)))) tx"
    proof
      assume g: "\<not> isLoading (st (step env (OrigText n (Inr tx)) c)) \<and> \<not> truthy (error (st c))
            \<and> tx \<noteq> []
            \<and> (isTextFile (fileExt env (fileName (cur c))) \<or> isCode (fileExt env (fileName (cur c)))
                \<or> isSpreadsheet (fileExt env (fileName (cur c))))"
      have e: "\<not> truthy (error (st (step env (OrigText n (Inr tx)) c)))"
        using w g by simp
      show "body (modal_view env (cur c) (st (step env (OrigText n (Inr tx)) c)))
               = PreBlock (isCode (fileExt env (fileName (cur c)))) tx"
        using w g e by (intro text_displayed) blast+
    qed
    then show "originalContent (st (step env (OrigText n (Inr tx)) c)) = tx
        \<and> \<not> originalContentLoading (st (step env (OrigText n (Inr tx)) c))
        \<and> (\<not> isLoading (st (step env (OrigText n (Inr tx)) c)) \<and> \<not> truthy (error (st c))
            \<and> tx \<noteq> []
            \<and> (isTextFile (fileExt env (fileName (cur c))) \<or> isCode (fileExt env (fileName (cur c)))
                \<or> isSpreadsheet (fileExt env (fileName (cur c)))) \<longrightarrow>
             body (modal_view env (cur c) (st (step env (OrigText n (Inr tx)) c)))
               = PreBlock (isCode (fileExt env (fileName (cur c)))) tx)"
      using w by blast
  qed
  have d: "k < length (batches c2) \<and> orig (batches c2 ! k) = OrigAwaitBlob d \<longrightarrow>
        fileUrl (st (step env (OrigBlob k (Inr url)) c2)) = url
        \<and> download_button (modal_view env (cur c2) (st (step env (OrigBlob k (Inr url)) c2)))
            = (url \<noteq> [])"
    using url_result_applied [of k c2 d env url "cur c2"] by blast
  have e: "j < length (batches c3) \<and> idx (batches c3 ! j) = IdxAwaitJson \<longrightarrow>
        indexedContent (st (step env (IdxJson j (Inr content)) c3)) = content
        \<and> \<not> indexedContentLoading (st (step env (IdxJson j (Inr content)) c3))"
    using indexed_result_applied [of j c3 env content] by blast
  show ?thesis
    by (rule conjI [OF a conjI [OF b conjI [OF d e]]])
qed

theorem stale_results_are_applied_witness:
  "((0 < length (batches stale_text_pending)
     \<and> orig (batches stale_text_pending ! 0) = OrigAwaitText)
    \<and> (\<not> isLoading (st (step sample_env (OrigText 0 (Inr (js ''old''))) stale_text_pending))
        \<and> \<not> truthy (error (st stale_text_pending)) \<and> js ''old'' \<noteq> []
        \<and> (isTextFile (fileExt sample_env (fileName (cur stale_text_pending)))
            \<or> isCode (fileExt sample_env (fileName (cur stale_text_pending)))
            \<or> isSpreadsheet (fileExt sample_env (fileName (cur stale_text_pending)))))
    \<and> (0 < length (batches stale_blob_pending)
        \<and> orig (batches stale_blob_pending ! 0) = OrigAwaitBlob True)
    \<and> (0 < length (batches stale_json_pending)
        \<and> idx (batches stale_json_pending ! 0) = IdxAwaitJson)
    \<and> length (batches stale_text_pending) = 2 \<and> length (batches stale_blob_pending) = 2
    \<and> length (batches stale_json_pending) = 2
    \<and> fileName (cur stale_text_pending) = js ''b.txt''
    \<and> isCode (fileExt sample_env (fileName (cur stale_text_pending))) = False)
   \<and> body (modal_view sample_env (cur stale_text_pending)
        (st (step sample_env (OrigText 0 (Inr (js ''old''))) stale_text_pending)))
       = PreBlock (isCode (fileExt sample_env (fileName (cur stale_text_pending)))) (js ''old'')
   \<and> (fileUrl (st (step sample_env (OrigBlob 0 (Inr (js ''blob:1''))) stale_blob_pending))
        = js ''blob:1''
       \<and> download_button (modal_view sample_env (cur stale_blob_pending)
            (st (step sample_env (OrigBlob 0 (Inr (js ''blob:1''))) stale_blob_pending)))
          = (js ''blob:1'' \<noteq> []))
   \<and> (indexedContent (st (step sample_env (IdxJson 0 (Inr (js ''old index''))) stale_json_pending))
        = js ''old index''
       \<and> \<not> indexedContentLoading
             (st (step sample_env (IdxJson 0 (Inr (js ''old index''))) stale_json_pending)))"
proof -
  note t = stale_results_are_applied
    [where env = sample_env and c = stale_text_pending and n = 0 and tx = "js ''old''"
       and ?c2.0 = stale_blob_pending and k = 0 and d = True and url = "js ''blob:1''"
       and ?c3.0 = stale_json_pending and j = 0 and content = "js ''old index''"
       and ?c0.0 = stale_text_pending and p = "preview (js ''c.txt'')"]
  have ht: "let c = stale_text_pending in
     (0 < length (batches c) \<and> orig (batches c ! 0) = OrigAwaitText)
     \<and> (\<not> isLoading (st (step sample_env (OrigText 0 (Inr (js ''old''))) c))
        \<and> \<not> truthy (error (st c)) \<and> js ''old'' \<noteq> []
        \<and> (isTextFile (fileExt sample_env (fileName (cur c)))
            \<or> isCode (fileExt sample_env (fileName (cur c)))
            \<or> isSpreadsheet (fileExt sample_env (fileName (cur c)))))
     \<and> length (batches c) = 2 \<and> fileName (cur c) = js ''b.txt''
     \<and> isCode (fileExt sample_env (fileName (cur c))) = False"
    by code_simp
  have hb: "let c = stale_blob_pending in
     (0 < length (batches c) \<and> orig (batches c ! 0) = OrigAwaitBlob True)
     \<and> length (batches c) = 2"
    by code_simp
  have hj: "let c = stale_json_pending in
     (0 < length (batches c) \<and> idx (batches c ! 0) = IdxAwaitJson)
     \<and> length (batches c) = 2"
    by code_simp
  note ht' = ht [unfolded Let_def]
  note hb' = hb [unfolded Let_def]
  note hj' = hj [unfolded Let_def]
  note h1 = ht' [THEN conjunct1]
  note h2 = ht' [THEN conjunct2, THEN conjunct1]
  note h3 = hb' [THEN conjunct1]
  note h4 = hj' [THEN conjunct1]
  have h5: "length (batches stale_text_pending) = 2 \<and> length (batches stale_blob_pending) = 2
    \<and> length (batches stale_json_pending) = 2
    \<and> fileName (cur stale_text_pending) = js ''b.txt''
    \<and> isCode (fileExt sample_env (fileName (cur stale_text_pending))) = False"
    by (rule conjI [OF ht' [THEN conjunct2, THEN conjunct2, THEN conjunct1]
          conjI [OF hb' [THEN conjunct2] conjI [OF hj' [THEN conjunct2]
            ht' [THEN conjunct2, THEN conjunct2, THEN conjunct2]]]])
  note b = mp [OF t [THEN conjunct2, THEN conjunct1] h1]
  note shown = mp [OF b [THEN conjunct2, THEN conjunct2] h2]
  note d = mp [OF t [THEN conjunct2, THEN conjunct2, THEN conjunct1] h3]
  note e = mp [OF t [THEN conjunct2, THEN conjunct2, THEN conjunct2] h4]
  show ?thesis
    by (rule conjI [OF conjI [OF h1 conjI [OF h2 conjI [OF h3 conjI [OF h4 h5]]]]
          conjI [OF shown conjI [OF d e]]])
qed

section \<open>The open transition\<close>

lemma fetchIndexedContent_issued:
  "\<not> truthy (mockIndexedContent p) \<Longrightarrow> docId env p = Inr d \<Longrightarrow> d \<noteq> [] \<Longrightarrow>
   \<not> lone_surrogate d \<Longrightarrow>
   indexedContent (st (fst (fetchIndexedContent env p c))) = indexedContent (st c)
   \<and> indexedContentLoading (st (fst (fetchIndexedContent env p c)))
   \<and> snd (fetchIndexedContent env p c) = IdxAwaitResponse
   \<and> effects (fst (fetchIndexedContent env p c)) = effects c @ [FetchIndexed d]"
  by (simp add: fetchIndexedContent_def Let_def)

lemma useEffect_effects:
  "isOpen p \<Longrightarrow>
   effects (useEffect env p c)
     = effects (fst (fetchIndexedContent env p (fst (fetchOriginalContent env p
         (c\<lparr>st := (st c)\<lparr>isLoading := True, error := None\<rparr>\<rparr>)))))"
  by (simp add: useEffect_unfold)

lemma useEffect_cells:
  "isOpen p \<Longrightarrow>
   error (st (useEffect env p c))
     = (if \<not> truthy (mockOriginalContent p) \<and> lone_surrogate (fileId p)
        then Some (js ''Failed to load original file content.'') else None)
   \<and> fileUrl (st (useEffect env p c)) = fileUrl (st c)
   \<and> originalContent (st (useEffect env p c))
       = (if truthy (mockOriginalContent p) then str_of (mockOriginalContent p)
          else originalContent (st c))
   \<and> originalContentLoading (st (useEffect env p c))
       = (\<not> truthy (mockOriginalContent p) \<and> \<not> lone_surrogate (fileId p))
   \<and> indexedContent (st (useEffect env p c))
       = indexedContent (st (fst (fetchIndexedContent env p (fst (fetchOriginalContent env p
           (c\<lparr>st := (st c)\<lparr>isLoading := True, error := None\<rparr>\<rparr>))))))
   \<and> indexedContentLoading (st (useEffect env p c))
       = indexedContentLoading (st (fst (fetchIndexedContent env p (fst (fetchOriginalContent env p
           (c\<lparr>st := (st c)\<lparr>isLoading := True, error := None\<rparr>\<rparr>))))))"
  by (simp add: useEffect_unfold fetchOriginalContent_st)

lemma useEffect_loading:
  "isOpen p \<Longrightarrow> \<not> truthy (mockOriginalContent p) \<Longrightarrow> \<not> lone_surrogate (fileId p) \<Longrightarrow>
   isLoading (st (useEffect env p c))"
  by (simp add: useEffect_unfold promise_all_finally_def fetchOriginalContent_def Let_def)

lemma spinner_while_loading:
  "isLoading s \<Longrightarrow> body (modal_view env p s) = Spinner"
  by (simp add: modal_view_def renderFileContent_def Let_def)

text \<open>
  C4, as the claim states it, fails: \<open>notes.txt\<close> is previewed and closed, then
  \<open>report.docx\<close> is opened and fetched; the fetch of a document sets no text, and
  the panel of \<open>report.docx\<close> shows the text of \<open>notes.txt\<close>.
\<close>

theorem stale_content_shown_counterexample:
  "modal_view sample_env
      (cur (run sample_env txt_then_docx (mount sample_env (preview (js ''notes.txt'')))))
      (st (run sample_env txt_then_docx (mount sample_env (preview (js ''notes.txt'')))))
     = \<lparr>dialog_open = True, title = js ''report.docx'', body = PreBlock False (js ''secret''),
        download_button = True\<rparr>"
proof -
  have "let c = run sample_env txt_then_docx (mount sample_env (preview (js ''notes.txt''))) in
      modal_view sample_env (cur c) (st c)
        = \<lparr>dialog_open = True, title = js ''report.docx'',
           body = PreBlock False (js ''secret''), download_button = True\<rparr>"
    by code_simp
  then show ?thesis
    unfolding Let_def .
qed

text \<open>
  C4, amended: the open transition resets the error and nothing else. It leaves
  \<^verbatim>\<open>fileUrl\<close> as it was; it leaves \<^verbatim>\<open>originalContent\<close> as it was unless the
  request carries mock content, which replaces it; it leaves \<^verbatim>\<open>indexedContent\<close> as
  it was whenever an indexed fetch is issued. Each keeps the previous file's value
  until a fetch overwrites it. Without mock content, the identifier of the file is
  encoded for the request: when it can be encoded (it holds no unpaired surrogate),
  the error is cleared, the loading flags are set and the panel shows the spinner;
  when it cannot, the error is set at once to the failure message of the original
  content.
\<close>

theorem open_keeps_content:
  "isOpen p \<Longrightarrow> deps p \<noteq> deps (cur c) \<Longrightarrow>
   fileUrl (st (step env (Render p) c)) = fileUrl (st c)
   \<and> originalContent (st (step env (Render p) c))
       = (if truthy (mockOriginalContent p) then str_of (mockOriginalContent p)
          else originalContent (st c))
   \<and> error (st (step env (Render p) c))
       = (if \<not> truthy (mockOriginalContent p) \<and> lone_surrogate (fileId p)
          then Some (js ''Failed to load original file content.'') else None)
   \<and> (\<not> truthy (mockOriginalContent p) \<and> \<not> lone_surrogate (fileId p) \<longrightarrow>
        isLoading (st (step env (Render p) c))
        \<and> originalContentLoading (st (step env (Render p) c))
        \<and> body (modal_view env p (st (step env (Render p) c))) = Spinner)
   \<and> (\<not> truthy (mockIndexedContent p) \<and> docId env p = Inr d \<and> d \<noteq> [] \<and> \<not> lone_surrogate d \<longrightarrow>
        indexedContent (st (step env (Render p) c)) = indexedContent (st c)
        \<and> indexedContentLoading (st (step env (Render p) c))
        \<and> FetchIndexed d \<in> set (effects (step env (Render p) c)))"
proof -
  assume o: "isOpen p" and d: "deps p \<noteq> deps (cur c)"
  have s: "step env (Render p) c = useEffect env p (c\<lparr>cur := p\<rparr>)"
    using d by simp
  note cells = useEffect_cells [OF o, of env "c\<lparr>cur := p\<rparr>"]
  have a: "error (st (step env (Render p) c))
       = (if \<not> truthy (mockOriginalContent p) \<and> lone_surrogate (fileId p)
          then Some (js ''Failed to load original file content.'') else None)"
    unfolding s using cells by simp
  have b: "fileUrl (st (step env (Render p) c)) = fileUrl (st c)"
    unfolding s using cells by simp
  have e: "originalContent (st (step env (Render p) c))
       = (if truthy (mockOriginalContent p) then str_of (mockOriginalContent p)
          else originalContent (st c))"
    unfolding s using cells by simp
  have f: "\<not> truthy (mockOriginalContent p) \<and> \<not> lone_surrogate (fileId p) \<longrightarrow>
        isLoading (st (step env (Render p) c))
        \<and> originalContentLoading (st (step env (Render p) c))
        \<and> body (modal_view env p (st (step env (Render p) c))) = Spinner"
  proof
    assume m: "\<not> truthy (mockOriginalContent p) \<and> \<not> lone_surrogate (fileId p)"
    have l: "isLoading (st (step env (Render p) c))"
      unfolding s
      by (rule useEffect_loading [OF o conjunct1 [OF m] conjunct2 [OF m]])
    have l': "originalContentLoading (st (step env (Render p) c))"
      unfolding s using cells m by simp
    show "isLoading (st (step env (Render p) c))
        \<and> originalContentLoading (st (step env (Render p) c))
        \<and> body (modal_view env p (st (step env (Render p) c))) = Spinner"
      by (rule conjI [OF l conjI [OF l' spinner_while_loading [OF l]]])
  qed
  have i: "\<not> truthy (mockIndexedContent p) \<and> docId env p = Inr d \<and> d \<noteq> [] \<and> \<not> lone_surrogate d \<longrightarrow>
        indexedContent (st (step env (Render p) c)) = indexedContent (st c)
        \<and> indexedContentLoading (st (step env (Render p) c))
        \<and> FetchIndexed d \<in> set (effects (step env (Render p) c))"
  proof
    assume m: "\<not> truthy (mockIndexedContent p) \<and> docId env p = Inr d \<and> d \<noteq> []
      \<and> \<not> lone_surrogate d"
    note r = fetchIndexedContent_issued [OF conjunct1 [OF m] conjunct1 [OF conjunct2 [OF m]]
        conjunct1 [OF conjunct2 [OF conjunct2 [OF m]]]
        conjunct2 [OF conjunct2 [OF conjunct2 [OF m]]], where c =
        "fst (fetchOriginalContent env p
               (c\<lparr>cur := p, st := (st c)\<lparr>isLoading := True, error := None\<rparr>\<rparr>))"]
    have x: "indexedContent (st (step env (Render p) c)) = indexedContent (st c)"
      unfolding s using cells r by (simp add: fetchOriginalContent_st)
    have y: "indexedContentLoading (st (step env (Render p) c))"
      unfolding s using cells r by simp
    have z: "FetchIndexed d \<in> set (effects (step env (Render p) c))"
      unfolding s using useEffect_effects [OF o, of env "c\<lparr>cur := p\<rparr>"] r by simp
    show "indexedContent (st (step env (Render p) c)) = indexedContent (st c)
        \<and> indexedContentLoading (st (step env (Render p) c))
        \<and> FetchIndexed d \<in> set (effects (step env (Render p) c))"
      by (rule conjI [OF x conjI [OF y z]])
  qed
  show ?thesis
    by (rule conjI [OF b conjI [OF e conjI [OF a conjI [OF f i]]]])
qed

theorem open_keeps_content_witness:
  "((isOpen docx_with_id \<and> deps docx_with_id \<noteq> deps (cur loaded_txt))
    \<and> (\<not> truthy (mockOriginalContent docx_with_id) \<and> \<not> lone_surrogate (fileId docx_with_id))
    \<and> (\<not> truthy (mockIndexedContent docx_with_id) \<and> docId sample_env docx_with_id = Inr (js ''d2'')
        \<and> js ''d2'' \<noteq> [] \<and> \<not> lone_surrogate (js ''d2''))
    \<and> originalContent (st loaded_txt) = js ''hello''
    \<and> indexedContent (st loaded_txt) = js ''indexed text''
    \<and> fileUrl (st loaded_txt) = js ''blob:1'')
   \<and> fileUrl (st (step sample_env (Render docx_with_id) loaded_txt)) = fileUrl (st loaded_txt)
   \<and> originalContent (st (step sample_env (Render docx_with_id) loaded_txt))
       = originalContent (st loaded_txt)
   \<and> error (st (step sample_env (Render docx_with_id) loaded_txt)) = None
   \<and> body (modal_view sample_env docx_with_id
             (st (step sample_env (Render docx_with_id) loaded_txt))) = Spinner
   \<and> indexedContent (st (step sample_env (Render docx_with_id) loaded_txt))
       = indexedContent (st loaded_txt)
   \<and> FetchIndexed (js ''d2'') \<in> set (effects (step sample_env (Render docx_with_id) loaded_txt))
   \<and> ((isOpen unpaired_name \<and> deps unpaired_name \<noteq> deps (cur loaded_txt))
       \<and> \<not> truthy (mockOriginalContent unpaired_name) \<and> lone_surrogate (fileId unpaired_name))
   \<and> error (st (step sample_env (Render unpaired_name) loaded_txt))
       = Some (js ''Failed to load original file content.'')"
proof -
  have hc: "let c = loaded_txt in
      (deps docx_with_id \<noteq> deps (cur c) \<and> deps unpaired_name \<noteq> deps (cur c))
      \<and> originalContent (st c) = js ''hello''
      \<and> indexedContent (st c) = js ''indexed text''
      \<and> fileUrl (st c) = js ''blob:1''"
    by code_simp
  note hc' = hc [unfolded Let_def]
  have o: "isOpen docx_with_id" by code_simp
  note d = hc' [THEN conjunct1, THEN conjunct1]
  have m: "\<not> truthy (mockOriginalContent docx_with_id) \<and> \<not> lone_surrogate (fileId docx_with_id)"
    by code_simp
  have i: "\<not> truthy (mockIndexedContent docx_with_id) \<and> docId sample_env docx_with_id = Inr (js ''d2'')
        \<and> js ''d2'' \<noteq> [] \<and> \<not> lone_surrogate (js ''d2'')"
    by code_simp
  have o': "isOpen unpaired_name" by code_simp
  note d' = hc' [THEN conjunct1, THEN conjunct2]
  have m': "\<not> truthy (mockOriginalContent unpaired_name) \<and> lone_surrogate (fileId unpaired_name)"
    by code_simp
  note t = open_keeps_content [OF o d, where env = sample_env and d = "js ''d2''"]
  note t' = open_keeps_content [OF o' d', where env = sample_env]
  note 1 = t [THEN conjunct1]
  have 2: "originalContent (st (step sample_env (Render docx_with_id) loaded_txt))
       = originalContent (st loaded_txt)"
    using t [THEN conjunct2, THEN conjunct1] m by (simp only: if_False)
  have 3: "error (st (step sample_env (Render docx_with_id) loaded_txt)) = None"
    using t [THEN conjunct2, THEN conjunct2, THEN conjunct1] m by (simp only: simp_thms if_False)
  note 4 = mp [OF t [THEN conjunct2, THEN conjunct2, THEN conjunct2, THEN conjunct1] m]
  note 5 = mp [OF t [THEN conjunct2, THEN conjunct2, THEN conjunct2, THEN conjunct2] i]
  have 6: "error (st (step sample_env (Render unpaired_name) loaded_txt))
       = Some (js ''Failed to load original file content.'')"
    using t' [THEN conjunct2, THEN conjunct2, THEN conjunct1] m'
    by (simp only: simp_thms if_True)
  show ?thesis
    by (rule conjI [OF conjI [OF conjI [OF o d] conjI [OF m conjI [OF i hc' [THEN conjunct2]]]]
          conjI [OF 1 conjI [OF 2 conjI [OF 3 conjI [OF 4 [THEN conjunct2, THEN conjunct2]
            conjI [OF 5 [THEN conjunct1] conjI [OF 5 [THEN conjunct2, THEN conjunct2]
              conjI [OF conjI [OF conjI [OF o' d'] m'] 6]]]]]]]])
qed

section \<open>Failures of the indexed-content fetch\<close>

lemma fetchIndexedContent_no_identifier:
  "\<not> truthy (mockIndexedContent p) \<Longrightarrow> no_identifier env p \<Longrightarrow>
   indexedContent (st (fst (fetchIndexedContent env p c)))
     = js ''Indexed content is not available for this file.''
   \<and> \<not> indexedContentLoading (st (fst (fetchIndexedContent env p c)))
   \<and> snd (fetchIndexedContent env p c) = IdxDone
   \<and> count_list (effects (fst (fetchIndexedContent env p c))) (FetchIndexed d)
       = count_list (effects c) (FetchIndexed d)"
  by (auto simp add: fetchIndexedContent_def Let_def no_identifier_def split: sum.splits)

lemma fetchIndexedContent_no_path:
  "\<not> truthy (mockIndexedContent p) \<Longrightarrow> \<not> truthy (documentId p) \<Longrightarrow> \<not> truthy (filePath p) \<Longrightarrow>
   effects (fst (fetchIndexedContent env p c))
     = effects c @ [ConsoleError (js ''Error fetching indexed content:'')
                      (Error (js ''No document ID available for indexed content''))]"
  by (simp add: fetchIndexedContent_def docId_def Let_def)

lemma fetchOriginalContent_no_indexed_request [simp]:
  "count_list (effects (fst (fetchOriginalContent env p c))) (FetchIndexed d)
     = count_list (effects c) (FetchIndexed d)"
  by (simp add: fetchOriginalContent_def Let_def)

lemma useEffect_no_indexed_request:
  assumes "isOpen p" "\<not> truthy (mockIndexedContent p)" "no_identifier env p"
  shows "count_list (effects (useEffect env p c)) (FetchIndexed d)
           = count_list (effects c) (FetchIndexed d)
         \<and> batches (useEffect env p c)
             = batches c @ [\<lparr>orig = snd (fetchOriginalContent env p
                  (c\<lparr>st := (st c)\<lparr>isLoading := True, error := None\<rparr>\<rparr>)), idx = IdxDone\<rparr>]"
  using assms(1)
    fetchIndexedContent_no_identifier [OF assms(2,3), where d = d and c =
      "fst (fetchOriginalContent env p (c\<lparr>st := (st c)\<lparr>isLoading := True, error := None\<rparr>\<rparr>))"]
  by (simp add: useEffect_unfold)

lemma useEffect_no_identifier_cells:
  assumes "isOpen p" "\<not> truthy (mockIndexedContent p)" "no_identifier env p"
  shows "indexedContent (st (useEffect env p c))
           = js ''Indexed content is not available for this file.''
         \<and> \<not> indexedContentLoading (st (useEffect env p c))"
  using assms(1)
    fetchIndexedContent_no_identifier [OF assms(2,3), where c =
      "fst (fetchOriginalContent env p (c\<lparr>st := (st c)\<lparr>isLoading := True, error := None\<rparr>\<rparr>))"]
  by (simp add: useEffect_unfold)

lemma useEffect_no_path_console:
  assumes "isOpen p" "\<not> truthy (mockIndexedContent p)" "\<not> truthy (documentId p)"
    "\<not> truthy (filePath p)"
  shows "ConsoleError (js ''Error fetching indexed content:'')
           (Error (js ''No document ID available for indexed content''))
         \<in> set (effects (useEffect env p c))"
  using assms(1)
    fetchIndexedContent_no_path [OF assms(2,3,4), where env = env and c =
      "fst (fetchOriginalContent env p (c\<lparr>st := (st c)\<lparr>isLoading := True, error := None\<rparr>\<rparr>))"]
  by (simp add: useEffect_unfold)

lemma no_identifier_no_documentId:
  "no_identifier env p \<Longrightarrow> \<not> truthy (documentId p)"
  by (cases "documentId p")
     (auto simp add: no_identifier_def docId_def truthy_def str_of_def split: if_splits)

text \<open>A settled indexed-content fetch stays settled.\<close>

lemma idx_update_other:
  "n < length bs \<Longrightarrow> idx (bs ! n) = IdxDone \<Longrightarrow>
   idx (bs[m := (bs ! m)\<lparr>orig := x\<rparr>] ! n) = IdxDone"
  by (cases "m = n") simp_all

lemma idx_update_idx:
  "n < length bs \<Longrightarrow> idx (bs ! n) = IdxDone \<Longrightarrow> idx (bs ! m) \<noteq> IdxDone \<Longrightarrow>
   idx (bs[m := (bs ! m)\<lparr>idx := x\<rparr>] ! n) = IdxDone"
  by (cases "m = n") auto

lemma useEffect_keeps_settled:
  "n < length (batches c) \<Longrightarrow>
   n < length (batches (useEffect env p c)) \<and> batches (useEffect env p c) ! n = batches c ! n"
  by (simp add: useEffect_unfold nth_append)

lemma step_keeps_settled:
  assumes "n < length (batches c) \<and> idx (batches c ! n) = IdxDone"
  shows "n < length (batches (step env e c)) \<and> idx (batches (step env e c) ! n) = IdxDone"
proof (cases e)
  case (Render p)
  show ?thesis
    using assms Render useEffect_keeps_settled [of n "c\<lparr>cur := p\<rparr>" env p] by simp
next
  case (OrigResponse m r)
  then show ?thesis using assms
    by (simp add: orig_catch_def idx_update_other
        split: orig_stage.splits sum.splits prod.splits)
next
  case (OrigBlob m r)
  then show ?thesis using assms
    by (simp add: orig_catch_def idx_update_other Let_def
        split: orig_stage.splits sum.splits)
next
  case (OrigText m r)
  then show ?thesis using assms
    by (simp add: orig_catch_def idx_update_other
        split: orig_stage.splits sum.splits)
next
  case (IdxResponse m r)
  then show ?thesis using assms
    by (simp add: idx_catch_def idx_update_idx
        split: idx_stage.splits sum.splits prod.splits)
next
  case (IdxJson m r)
  then show ?thesis using assms
    by (simp add: idx_catch_def idx_update_idx
        split: idx_stage.splits sum.splits)
qed

lemma run_keeps_settled:
  "n < length (batches c) \<and> idx (batches c ! n) = IdxDone \<Longrightarrow>
   n < length (batches (run env es c)) \<and> idx (batches (run env es c) ! n) = IdxDone"
proof (induction es arbitrary: c)
  case Nil
  then show ?case by simp
next
  case (Cons e es)
  show ?case
    using Cons.IH [OF step_keeps_settled [OF Cons.prems, of env e]] by simp
qed


text \<open>
  C8, as the claim states it, fails twice. A request with mock indexed content, no
  document identifier and no path does not fail: \<^verbatim>\<open>fetchIndexedContent\<close> returns
  before it looks for an identifier, stores the mock text and logs nothing. And a
  failure message is not surfaced: \<open>a.txt\<close> is opened without identifier and
  without path and its original content is fetched; the message is stored, and the
  view shows the original text and nothing else.
\<close>

theorem mock_indexed_content_counterexample:
  "(\<not> truthy (documentId mock_both) \<and> \<not> truthy (filePath mock_both)
    \<and> indexedContent (st (mount sample_env mock_both)) = js ''demo''
    \<and> effects (mount sample_env mock_both) = [])
   \<and> (\<not> truthy (documentId (cur loaded_without_id)) \<and> \<not> truthy (filePath (cur loaded_without_id))
      \<and> indexedContent (st loaded_without_id)
          = js ''Indexed content is not available for this file.''
      \<and> modal_view sample_env (cur loaded_without_id) (st loaded_without_id)
          = \<lparr>dialog_open = True, title = js ''a.txt'', body = PreBlock False (js ''hello''),
             download_button = True\<rparr>)"
proof -
  have a: "let c = mount sample_env mock_both in
      \<not> truthy (documentId mock_both) \<and> \<not> truthy (filePath mock_both)
      \<and> indexedContent (st c) = js ''demo'' \<and> effects c = []"
    by code_simp
  have b: "let c = loaded_without_id in
      \<not> truthy (documentId (cur c)) \<and> \<not> truthy (filePath (cur c))
      \<and> indexedContent (st c) = js ''Indexed content is not available for this file.''
      \<and> modal_view sample_env (cur c) (st c)
          = \<lparr>dialog_open = True, title = js ''a.txt'', body = PreBlock False (js ''hello''),
             download_button = True\<rparr>"
    by code_simp
  show ?thesis
    by (rule conjI [OF a [unfolded Let_def] b [unfolded Let_def]])
qed

text \<open>
  C8, amended: for every preview request without mock indexed content that supplies
  no document identifier and from which none can be derived, the indexed-content
  fetch fails inside the effect, before any \<^verbatim>\<open>await\<close>: it stores the failure
  message as the indexed content and clears the loading flag of the indexed content,
  it is settled at once and stays settled whatever happens later, and it issues no
  request to the indexed-content endpoint. The value logged is the one
  \<^verbatim>\<open>getDocumentIdFromPath\<close> threw, if it threw, and the error
  \<open>No document ID available for indexed content\<close> otherwise. The message is stored,
  not displayed: the component returns no panel for the indexed content, and its view
  is the same whatever the indexed content and its loading flag are.
\<close>

theorem no_identifier_fails_without_request:
  "isOpen p \<Longrightarrow> \<not> truthy (mockIndexedContent p) \<Longrightarrow> no_identifier env p \<Longrightarrow>
   indexedContent (st (useEffect env p c))
     = js ''Indexed content is not available for this file.''
   \<and> \<not> indexedContentLoading (st (useEffect env p c))
   \<and> idx (last (batches (useEffect env p c))) = IdxDone
   \<and> idx (batches (run env es (useEffect env p c)) ! length (batches c)) = IdxDone
   \<and> count_list (effects (useEffect env p c)) (FetchIndexed d)
       = count_list (effects c) (FetchIndexed d)
   \<and> ConsoleError (js ''Error fetching indexed content:'')
        (case docId env p of
           Inl x \<Rightarrow> x
         | Inr i \<Rightarrow> Error (js ''No document ID available for indexed content''))
       \<in> set (effects (useEffect env p c))
   \<and> modal_view env q ((st (useEffect env p c))\<lparr>indexedContent := x, indexedContentLoading := y\<rparr>)
       = modal_view env q (st (useEffect env p c))"
proof -
  assume o: "isOpen p" and m: "\<not> truthy (mockIndexedContent p)" and n: "no_identifier env p"
  note cells = useEffect_no_identifier_cells [OF o m n, of c]
  note req = useEffect_no_indexed_request [OF o m n, of c d]
  have l: "idx (last (batches (useEffect env p c))) = IdxDone"
    using req by simp
  have s: "length (batches c) < length (batches (useEffect env p c))
      \<and> idx (batches (useEffect env p c) ! length (batches c)) = IdxDone"
    using req by simp
  note t = run_keeps_settled [OF s, of env es, THEN conjunct2]
  have con: "ConsoleError (js ''Error fetching indexed content:'')
        (case docId env p of
           Inl x \<Rightarrow> x
         | Inr i \<Rightarrow> Error (js ''No document ID available for indexed content''))
       \<in> set (effects (useEffect env p c))"
    using o m n
    by (simp add: useEffect_unfold fetchIndexedContent_def no_identifier_def Let_def
        split: sum.splits)
  show ?thesis
    by (rule conjI [OF cells [THEN conjunct1] conjI [OF cells [THEN conjunct2]
          conjI [OF l conjI [OF t conjI [OF req [THEN conjunct1]
            conjI [OF con view_ignores_indexed]]]]]])
qed

theorem no_identifier_fails_without_request_witness:
  "(isOpen mock_original \<and> \<not> truthy (mockIndexedContent mock_original)
    \<and> no_identifier sample_env mock_original)
   \<and> indexedContent (st (mount sample_env mock_original))
       = js ''Indexed content is not available for this file.''
   \<and> \<not> indexedContentLoading (st (mount sample_env mock_original))
   \<and> idx (last (batches (mount sample_env mock_original))) = IdxDone
   \<and> idx (batches (run sample_env indexed_ok (mount sample_env mock_original)) ! 0) = IdxDone
   \<and> count_list (effects (mount sample_env mock_original)) (FetchIndexed (js ''d1'')) = 0
   \<and> ConsoleError (js ''Error fetching indexed content:'')
        (Error (js ''No document ID available for indexed content''))
       \<in> set (effects (mount sample_env mock_original))
   \<and> modal_view sample_env mock_original
        ((st (mount sample_env mock_original))
           \<lparr>indexedContent := js ''indexed text'', indexedContentLoading := True\<rparr>)
       = modal_view sample_env mock_original (st (mount sample_env mock_original))
   \<and> modal_view sample_env mock_original (st (mount sample_env mock_original))
       = \<lparr>dialog_open = True, title = js ''notes.txt'', body = PreBlock False (js ''hello''),
          download_button = False\<rparr>"
proof -
  have o: "isOpen mock_original" by code_simp
  have m: "\<not> truthy (mockIndexedContent mock_original)" by code_simp
  have n: "no_identifier sample_env mock_original" by code_simp
  have i: "docId sample_env mock_original = Inr []" by code_simp
  note t = no_identifier_fails_without_request [OF o m n,
      where c = "\<lparr>st = initial_state, cur = mock_original, batches = [], effects = []\<rparr>"
        and d = "js ''d1''" and es = indexed_ok and q = mock_original
        and x = "js ''indexed text''" and y = True, folded mount_def]
  note 1 = t [THEN conjunct1]
  note 2 = t [THEN conjunct2, THEN conjunct1]
  note 3 = t [THEN conjunct2, THEN conjunct2, THEN conjunct1]
  have 4: "idx (batches (run sample_env indexed_ok (mount sample_env mock_original)) ! 0) = IdxDone"
    using t [THEN conjunct2, THEN conjunct2, THEN conjunct2, THEN conjunct1] by simp
  have 5: "count_list (effects (mount sample_env mock_original)) (FetchIndexed (js ''d1'')) = 0"
    using t [THEN conjunct2, THEN conjunct2, THEN conjunct2, THEN conjunct2, THEN conjunct1]
    by simp
  have 6: "ConsoleError (js ''Error fetching indexed content:'')
        (Error (js ''No document ID available for indexed content''))
       \<in> set (effects (mount sample_env mock_original))"
    using t [THEN conjunct2, THEN conjunct2, THEN conjunct2, THEN conjunct2, THEN conjunct2,
        THEN conjunct1] i
    by (simp only: sum.case)
  note 7 = t [THEN conjunct2, THEN conjunct2, THEN conjunct2, THEN conjunct2, THEN conjunct2,
        THEN conjunct2]
  have 8: "modal_view sample_env mock_original (st (mount sample_env mock_original))
       = \<lparr>dialog_open = True, title = js ''notes.txt'', body = PreBlock False (js ''hello''),
          download_button = False\<rparr>"
    by code_simp
  show ?thesis
    by (rule conjI [OF conjI [OF o conjI [OF m n]]
          conjI [OF 1 conjI [OF 2 conjI [OF 3 conjI [OF 4 conjI [OF 5 conjI [OF 6
            conjI [OF 7 8]]]]]]]])
qed

lemma idx_catch_cells:
  "indexedContent (st (idx_catch x n c)) = js ''Indexed content is not available for this file.''
   \<and> \<not> indexedContentLoading (st (idx_catch x n c))
   \<and> error (st (idx_catch x n c)) = error (st c)"
  by (simp add: idx_catch_def)

lemma idx_fails_cells:
  "idx_fails e c \<Longrightarrow>
   indexedContent (st (step env e c)) = js ''Indexed content is not available for this file.''
   \<and> \<not> indexedContentLoading (st (step env e c))
   \<and> error (st (step env e c)) = error (st c)"
proof (cases e)
  case (IdxResponse n r)
  assume "idx_fails e c"
  then show ?thesis using IdxResponse
    by (simp add: idx_catch_cells not_ok_def split: sum.splits prod.splits)
next
  case (IdxJson n r)
  assume "idx_fails e c"
  then show ?thesis using IdxJson
    by (simp add: idx_catch_cells rejected_def split: sum.splits)
qed simp_all

lemma json_failure_like_success:
  "n < length (batches c) \<and> idx (batches c ! n) = IdxAwaitJson \<Longrightarrow>
   st (step env (IdxJson n (Inl x)) c)
     = st (step env (IdxJson n (Inr (js ''Indexed content is not available for this file.''))) c)
   \<and> idx (batches (step env (IdxJson n (Inl x)) c) ! n) = IdxDone"
  by (simp add: idx_catch_def promise_all_finally_def)

lemma response_failure_like_success:
  "k < length (batches c) \<and> idx (batches c ! k) = IdxAwaitResponse \<and> not_ok r \<Longrightarrow>
   st (step env (IdxResponse k r) c)
     = st (run env [IdxResponse k (Inr (True, statusText)),
                    IdxJson k (Inr (js ''Indexed content is not available for this file.''))] c)
   \<and> idx (batches (step env (IdxResponse k r) c) ! k) = IdxDone"
  by (auto simp add: idx_catch_def promise_all_finally_def not_ok_def
      split: sum.splits prod.splits)

lemma fetchIndexedContent_no_request:
  "\<not> truthy (mockIndexedContent p) \<and> no_indexed_request env p \<Longrightarrow>
   indexedContent (st (fst (fetchIndexedContent env p c)))
     = js ''Indexed content is not available for this file.''
   \<and> \<not> indexedContentLoading (st (fst (fetchIndexedContent env p c)))
   \<and> error (st (fst (fetchIndexedContent env p c))) = error (st c)
   \<and> snd (fetchIndexedContent env p c) = IdxDone"
  by (auto simp add: fetchIndexedContent_def Let_def no_indexed_request_def split: sum.splits)

text \<open>
  C9, as the claim states it, fails in its consequence. \<open>a.txt\<close> is opened with a
  document identifier. When both fetches get a 404, the failure text is stored and
  the view shows the error panel of the original content. When the original content
  is fetched and the indexed fetch gets a 404, the failure text is stored and the
  view shows the original text. Nothing displays the failure text.
\<close>

theorem indexed_failure_not_displayed_counterexample:
  "(indexedContent (st both_failed) = js ''Indexed content is not available for this file.''
    \<and> modal_view sample_env (cur both_failed) (st both_failed)
        = \<lparr>dialog_open = True, title = js ''a.txt'',
           body = ErrorPanel (js ''Failed to load original file content.''),
           download_button = False\<rparr>)
   \<and> (indexedContent (st indexed_failed)
         = js ''Indexed content is not available for this file.''
      \<and> modal_view sample_env (cur indexed_failed) (st indexed_failed)
          = \<lparr>dialog_open = True, title = js ''a.txt'', body = PreBlock False (js ''hello''),
             download_button = True\<rparr>)"
proof -
  have a: "let c = both_failed in
      indexedContent (st c) = js ''Indexed content is not available for this file.''
      \<and> modal_view sample_env (cur c) (st c)
          = \<lparr>dialog_open = True, title = js ''a.txt'',
             body = ErrorPanel (js ''Failed to load original file content.''),
             download_button = False\<rparr>"
    by code_simp
  have b: "let c = indexed_failed in
      indexedContent (st c) = js ''Indexed content is not available for this file.''
      \<and> modal_view sample_env (cur c) (st c)
          = \<lparr>dialog_open = True, title = js ''a.txt'', body = PreBlock False (js ''hello''),
             download_button = True\<rparr>"
    by code_simp
  show ?thesis
    by (rule conjI [OF a [unfolded Let_def] b [unfolded Let_def]])
qed

text \<open>
  C9, amended: every failure of the indexed-content fetch (a network error, a non-2xx
  response, a body that cannot be read, an identifier that is missing or cannot be
  encoded) stores the fixed string \<open>Indexed content is not available for this file.\<close>
  as the indexed content, clears the loading flag of the indexed content and marks
  the fetch settled; it leaves the error state as it was. The state after the failure
  is the state after a successful fetch of that very text. The string is stored, not
  displayed: the component returns no panel for the indexed content, and its view
  after the failure is the same whatever the indexed content and its loading flag
  are.
\<close>

theorem indexed_failure_is_stored_text:
  "(idx_fails e c \<longrightarrow>
      indexedContent (st (step env e c)) = js ''Indexed content is not available for this file.''
      \<and> \<not> indexedContentLoading (st (step env e c))
      \<and> error (st (step env e c)) = error (st c)
      \<and> modal_view env p ((st (step env e c))\<lparr>indexedContent := y, indexedContentLoading := z\<rparr>)
          = modal_view env p (st (step env e c)))
   \<and> (n < length (batches c1) \<and> idx (batches c1 ! n) = IdxAwaitJson \<longrightarrow>
        st (step env (IdxJson n (Inl x)) c1)
          = st (step env
                  (IdxJson n (Inr (js ''Indexed content is not available for this file.''))) c1)
        \<and> idx (batches (step env (IdxJson n (Inl x)) c1) ! n) = IdxDone)
   \<and> (k < length (batches c2) \<and> idx (batches c2 ! k) = IdxAwaitResponse \<and> not_ok r \<longrightarrow>
        st (step env (IdxResponse k r) c2)
          = st (run env
                  [IdxResponse k (Inr (True, statusText)),
                   IdxJson k (Inr (js ''Indexed content is not available for this file.''))] c2)
        \<and> idx (batches (step env (IdxResponse k r) c2) ! k) = IdxDone)
   \<and> (\<not> truthy (mockIndexedContent q) \<and> no_indexed_request env q \<longrightarrow>
        indexedContent (st (fst (fetchIndexedContent env q c3)))
          = js ''Indexed content is not available for this file.''
        \<and> \<not> indexedContentLoading (st (fst (fetchIndexedContent env q c3)))
        \<and> error (st (fst (fetchIndexedContent env q c3))) = error (st c3)
        \<and> snd (fetchIndexedContent env q c3) = IdxDone)"
proof -
  have a: "idx_fails e c \<longrightarrow>
      indexedContent (st (step env e c)) = js ''Indexed content is not available for this file.''
      \<and> \<not> indexedContentLoading (st (step env e c))
      \<and> error (st (step env e c)) = error (st c)
      \<and> modal_view env p ((st (step env e c))\<lparr>indexedContent := y, indexedContentLoading := z\<rparr>)
          = modal_view env p (st (step env e c))"
  proof
    assume f: "idx_fails e c"
    note cells = idx_fails_cells [OF f, of env]
    show "indexedContent (st (step env e c)) = js ''Indexed content is not available for this file.''
      \<and> \<not> indexedContentLoading (st (step env e c))
      \<and> error (st (step env e c)) = error (st c)
      \<and> modal_view env p ((st (step env e c))\<lparr>indexedContent := y, indexedContentLoading := z\<rparr>)
          = modal_view env p (st (step env e c))"
      by (rule conjI [OF cells [THEN conjunct1] conjI [OF cells [THEN conjunct2, THEN conjunct1]
            conjI [OF cells [THEN conjunct2, THEN conjunct2] view_ignores_indexed]]])
  qed
  have b: "n < length (batches c1) \<and> idx (batches c1 ! n) = IdxAwaitJson \<longrightarrow>
        st (step env (IdxJson n (Inl x)) c1)
          = st (step env
                  (IdxJson n (Inr (js ''Indexed content is not available for this file.''))) c1)
        \<and> idx (batches (step env (IdxJson n (Inl x)) c1) ! n) = IdxDone"
    by (rule impI) (rule json_failure_like_success)
  have b2: "k < length (batches c2) \<and> idx (batches c2 ! k) = IdxAwaitResponse \<and> not_ok r \<longrightarrow>
        st (step env (IdxResponse k r) c2)
          = st (run env
                  [IdxResponse k (Inr (True, statusText)),
                   IdxJson k (Inr (js ''Indexed content is not available for this file.''))] c2)
        \<and> idx (batches (step env (IdxResponse k r) c2) ! k) = IdxDone"
    by (rule impI) (rule response_failure_like_success)
  have d: "\<not> truthy (mockIndexedContent q) \<and> no_indexed_request env q \<longrightarrow>
        indexedContent (st (fst (fetchIndexedContent env q c3)))
          = js ''Indexed content is not available for this file.''
        \<and> \<not> indexedContentLoading (st (fst (fetchIndexedContent env q c3)))
        \<and> error (st (fst (fetchIndexedContent env q c3))) = error (st c3)
        \<and> snd (fetchIndexedContent env q c3) = IdxDone"
    by (rule impI) (rule fetchIndexedContent_no_request)
  show ?thesis
    by (rule conjI [OF a conjI [OF b conjI [OF b2 d]]])
qed

theorem indexed_failure_is_stored_text_witness:
  "(idx_fails (IdxJson 0 (Inl (Error (js ''Unexpected token'')))) awaiting_json
    \<and> (0 < length (batches awaiting_json) \<and> idx (batches awaiting_json ! 0) = IdxAwaitJson)
    \<and> (0 < length (batches awaiting_response)
        \<and> idx (batches awaiting_response ! 0) = IdxAwaitResponse \<and> not_ok not_found)
    \<and> (\<not> truthy (mockIndexedContent unpaired_id) \<and> no_indexed_request sample_env unpaired_id))
   \<and> (indexedContent
         (st (step sample_env (IdxJson 0 (Inl (Error (js ''Unexpected token'')))) awaiting_json))
        = js ''Indexed content is not available for this file.''
       \<and> error (st (step sample_env (IdxJson 0 (Inl (Error (js ''Unexpected token''))))
                      awaiting_json))
          = error (st awaiting_json)
       \<and> modal_view sample_env txt_with_id
           ((st (step sample_env (IdxJson 0 (Inl (Error (js ''Unexpected token''))))
                   awaiting_json))
              \<lparr>indexedContent := js ''indexed text'', indexedContentLoading := True\<rparr>)
          = modal_view sample_env txt_with_id
              (st (step sample_env (IdxJson 0 (Inl (Error (js ''Unexpected token''))))
                     awaiting_json)))
   \<and> st (step sample_env (IdxJson 0 (Inl (Error (js ''Unexpected token'')))) awaiting_json)
       = st (step sample_env
               (IdxJson 0 (Inr (js ''Indexed content is not available for this file.'')))
               awaiting_json)
   \<and> (st (step sample_env (IdxResponse 0 not_found) awaiting_response)
        = st (run sample_env
                [IdxResponse 0 (Inr (True, js ''OK'')),
                 IdxJson 0 (Inr (js ''Indexed content is not available for this file.''))]
                awaiting_response)
       \<and> idx (batches (step sample_env (IdxResponse 0 not_found) awaiting_response) ! 0)
          = IdxDone)
   \<and> (indexedContent (st (fst (fetchIndexedContent sample_env unpaired_id awaiting_json)))
        = js ''Indexed content is not available for this file.''
       \<and> error (st (fst (fetchIndexedContent sample_env unpaired_id awaiting_json)))
          = error (st awaiting_json)
       \<and> snd (fetchIndexedContent sample_env unpaired_id awaiting_json) = IdxDone)"
proof -
  note t = indexed_failure_is_stored_text
    [where e = "IdxJson 0 (Inl (Error (js ''Unexpected token'')))" and c = awaiting_json
       and env = sample_env and p = txt_with_id and y = "js ''indexed text''" and z = True
       and n = 0 and ?c1.0 = awaiting_json and x = "Error (js ''Unexpected token'')"
       and k = 0 and ?c2.0 = awaiting_response and r = not_found and statusText = "js ''OK''"
       and q = unpaired_id and ?c3.0 = awaiting_json]
  have hj: "let c = awaiting_json in
      idx_fails (IdxJson 0 (Inl (Error (js ''Unexpected token'')))) c
      \<and> (0 < length (batches c) \<and> idx (batches c ! 0) = IdxAwaitJson)"
    by code_simp
  note f = hj [unfolded Let_def, THEN conjunct1]
  note j = hj [unfolded Let_def, THEN conjunct2]
  have h: "0 < length (batches awaiting_response)
        \<and> idx (batches awaiting_response ! 0) = IdxAwaitResponse \<and> not_ok not_found"
    by code_simp
  have u: "\<not> truthy (mockIndexedContent unpaired_id) \<and> no_indexed_request sample_env unpaired_id"
    by code_simp
  note a = mp [OF t [THEN conjunct1] f]
  note b = mp [OF t [THEN conjunct2, THEN conjunct1] j]
  note b2 = mp [OF t [THEN conjunct2, THEN conjunct2, THEN conjunct1] h]
  note d = mp [OF t [THEN conjunct2, THEN conjunct2, THEN conjunct2] u]
  show ?thesis
    by (rule conjI [OF conjI [OF f conjI [OF j conjI [OF h u]]]
          conjI [OF conjI [OF a [THEN conjunct1]
                   conjI [OF a [THEN conjunct2, THEN conjunct2, THEN conjunct1]
                     a [THEN conjunct2, THEN conjunct2, THEN conjunct2]]]
            conjI [OF b [THEN conjunct1]
              conjI [OF b2
                conjI [OF d [THEN conjunct1]
                  conjI [OF d [THEN conjunct2, THEN conjunct2, THEN conjunct1]
                    d [THEN conjunct2, THEN conjunct2, THEN conjunct2]]]]]]])
qed

lemma idx_event_keeps_cells:
  "idx_event e \<Longrightarrow>
   error (st (step env e c)) = error (st c)
   \<and> fileUrl (st (step env e c)) = fileUrl (st c)
   \<and> originalContent (st (step env e c)) = originalContent (st c)
   \<and> originalContentLoading (st (step env e c)) = originalContentLoading (st c)"
  by (cases e)
     (simp_all add: idx_catch_def split: idx_stage.splits sum.splits prod.splits)

section \<open>Sessions with mock original content\<close>

lemma in_flight_nth:
  "no_original_in_flight c \<Longrightarrow> n < length (batches c) \<Longrightarrow> orig (batches c ! n) = OrigDone"
  by (simp add: no_original_in_flight_def list_all_length)

lemma orig_event_noop:
  assumes "no_original_in_flight c"
  shows "step env (OrigResponse n r) c = c" "step env (OrigBlob n r') c = c"
    "step env (OrigText n r') c = c"
  using in_flight_nth [OF assms, of n] by simp_all

lemma list_all_orig_update:
  "list_all (\<lambda>b. orig b = OrigDone) bs \<Longrightarrow>
   list_all (\<lambda>b. orig b = OrigDone) (bs[n := (bs ! n)\<lparr>idx := x\<rparr>])"
proof (cases "n < length bs")
  case True
  assume "list_all (\<lambda>b. orig b = OrigDone) bs"
  then show ?thesis using True by (simp add: list_all_length nth_list_update)
next
  case False
  assume "list_all (\<lambda>b. orig b = OrigDone) bs"
  then show ?thesis using False by (simp add: not_less list_update_beyond)
qed

lemma idx_event_in_flight:
  "idx_event e \<Longrightarrow> no_original_in_flight c \<Longrightarrow> no_original_in_flight (step env e c)"
  by (cases e)
     (simp_all add: idx_catch_def no_original_in_flight_def list_all_orig_update
        split: idx_stage.splits sum.splits prod.splits)

lemma idx_event_effects:
  "idx_event e \<Longrightarrow>
   count_list (effects (step env e c)) (FetchFile i) = count_list (effects c) (FetchFile i)
   \<and> count_list (effects (step env e c)) (CreateObjectURL u)
       = count_list (effects c) (CreateObjectURL u)"
  by (cases e)
     (simp_all add: idx_catch_def split: idx_stage.splits sum.splits prod.splits)

lemma fetchIndexedContent_effects:
  "count_list (effects (fst (fetchIndexedContent env p c))) (FetchFile i)
     = count_list (effects c) (FetchFile i)
   \<and> count_list (effects (fst (fetchIndexedContent env p c))) (CreateObjectURL u)
       = count_list (effects c) (CreateObjectURL u)"
  by (simp add: fetchIndexedContent_def Let_def split: sum.splits)

lemma fetchOriginalContent_mock:
  "truthy (mockOriginalContent p) \<Longrightarrow>
   fetchOriginalContent env p c =
     (c\<lparr>st := (st c)\<lparr>originalContent := str_of (mockOriginalContent p),
                     originalContentLoading := False\<rparr>\<rparr>, OrigDone)"
  by (simp add: fetchOriginalContent_def)

lemma useEffect_mock:
  assumes "truthy (mockOriginalContent p)"
  shows "fileUrl (st (useEffect env p c)) = fileUrl (st c)
    \<and> (no_original_in_flight c \<longrightarrow> no_original_in_flight (useEffect env p c))
    \<and> count_list (effects (useEffect env p c)) (FetchFile i) = count_list (effects c) (FetchFile i)
    \<and> count_list (effects (useEffect env p c)) (CreateObjectURL u)
        = count_list (effects c) (CreateObjectURL u)"
proof (cases "isOpen p")
  case True
  note f = fetchIndexedContent_effects [where env = env and p = p and i = i and u = u and c =
      "c\<lparr>st := (st c)\<lparr>isLoading := True, error := None,
                        originalContent := str_of (mockOriginalContent p),
                        originalContentLoading := False\<rparr>\<rparr>"]
  show ?thesis
    using True f
    by (simp add: useEffect_unfold fetchOriginalContent_mock [OF assms]
        no_original_in_flight_def)
next
  case False
  then show ?thesis by (simp add: useEffect_def)
qed

lemma step_mock:
  assumes "fileUrl (st c) = []" "no_original_in_flight c" "mock_render e"
  shows "fileUrl (st (step env e c)) = [] \<and> no_original_in_flight (step env e c)
    \<and> count_list (effects (step env e c)) (FetchFile i) = count_list (effects c) (FetchFile i)
    \<and> count_list (effects (step env e c)) (CreateObjectURL u)
        = count_list (effects c) (CreateObjectURL u)"
proof (cases e)
  case (Render p)
  have m: "truthy (mockOriginalContent p)" using assms(3) Render by simp
  have n: "no_original_in_flight (c\<lparr>cur := p\<rparr>)"
    using assms(2) by (simp add: no_original_in_flight_def)
  show ?thesis
    using Render assms(1,2) n useEffect_mock [OF m, of env "c\<lparr>cur := p\<rparr>" i u]
    by (simp add: no_original_in_flight_def)
next
  case (OrigResponse n r)
  then show ?thesis using assms orig_event_noop [OF assms(2)] by simp
next
  case (OrigBlob n r)
  then show ?thesis using assms orig_event_noop [OF assms(2)] by simp
next
  case (OrigText n r)
  then show ?thesis using assms orig_event_noop [OF assms(2)] by simp
next
  case (IdxResponse n r)
  then have "idx_event e" by simp
  then show ?thesis
    using assms(1,2) idx_event_keeps_cells [of e env c] idx_event_in_flight [of e c env]
      idx_event_effects [of e env c i u] by simp
next
  case (IdxJson n r)
  then have "idx_event e" by simp
  then show ?thesis
    using assms(1,2) idx_event_keeps_cells [of e env c] idx_event_in_flight [of e c env]
      idx_event_effects [of e env c i u] by simp
qed

lemma run_mock:
  "fileUrl (st c) = [] \<Longrightarrow> no_original_in_flight c \<Longrightarrow> list_all mock_render es \<Longrightarrow>
   fileUrl (st (run env es c)) = [] \<and> no_original_in_flight (run env es c)
   \<and> count_list (effects (run env es c)) (FetchFile i) = count_list (effects c) (FetchFile i)
   \<and> count_list (effects (run env es c)) (CreateObjectURL u)
       = count_list (effects c) (CreateObjectURL u)"
proof (induction es arbitrary: c)
  case Nil
  then show ?case by simp
next
  case (Cons e es)
  have e: "mock_render e" and es: "list_all mock_render es"
    using Cons.prems(3) by simp_all
  note s = step_mock [OF Cons.prems(1,2) e, of env i u]
  note ih = Cons.IH [OF conjunct1 [OF s] conjunct1 [OF conjunct2 [OF s]] es]
  show ?case using s ih by simp
qed

lemma no_url_no_binary_renderer:
  "fileUrl s = [] \<Longrightarrow> \<not> binary_renderer (renderFileContent env p s True)"
  by (simp add: renderFileContent_def Let_def)

lemma mount_mock:
  assumes "truthy (mockOriginalContent p)"
  shows "fileUrl (st (mount env p)) = [] \<and> no_original_in_flight (mount env p)"
  using useEffect_mock [OF assms, of env "\<lparr>st = initial_state, cur = p, batches = [], effects = []\<rparr>"]
  by (simp add: mount_def no_original_in_flight_def initial_state_def)


text \<open>
  C10, as the claim states it, fails in its consequence: \<open>a.pdf\<close> is fetched without
  mock content and its object URL is stored; the component is then rendered with
  \<open>b.pdf\<close> and mock content. \<^verbatim>\<open>fileUrl\<close> still holds the URL of \<open>a.pdf\<close>: the
  pdf branch is taken and the download button is rendered.
\<close>

theorem stale_url_in_mock_session_counterexample:
  "truthy (mockOriginalContent
      (cur (run sample_env pdf_then_mock
              (mount sample_env (preview (js ''a.pdf''))))))
   \<and> body (modal_view sample_env
      (cur (run sample_env pdf_then_mock
              (mount sample_env (preview (js ''a.pdf'')))))
      (st (run sample_env pdf_then_mock
              (mount sample_env (preview (js ''a.pdf'')))))) = PdfViewer (js ''blob:1#toolbar=0'')
   \<and> download_button (modal_view sample_env
      (cur (run sample_env pdf_then_mock
              (mount sample_env (preview (js ''a.pdf'')))))
      (st (run sample_env pdf_then_mock
              (mount sample_env (preview (js ''a.pdf''))))))"
proof -
  have "let c = run sample_env pdf_then_mock (mount sample_env (preview (js ''a.pdf''))) in
      truthy (mockOriginalContent (cur c))
      \<and> body (modal_view sample_env (cur c) (st c)) = PdfViewer (js ''blob:1#toolbar=0'')
      \<and> download_button (modal_view sample_env (cur c) (st c))"
    by code_simp
  then show ?thesis
    unfolding Let_def .
qed

text \<open>
  C10, amended: for every request whose \<^verbatim>\<open>mockOriginalContent\<close> is a non-empty
  string, \<^verbatim>\<open>fetchOriginalContent\<close> stores the mock text and returns, with no
  request and no write to \<^verbatim>\<open>fileUrl\<close>. Consequently, in a session that starts
  with an empty \<^verbatim>\<open>fileUrl\<close> and no original-content fetch in flight (such as a
  component mounted with mock content) and in which every render carries mock content,
  \<^verbatim>\<open>fileUrl\<close> stays empty, no file request is issued and no object URL is created,
  the pdf and image branches are not taken and the download button is not rendered,
  whatever the extension of the file.
\<close>

theorem mock_session_has_no_binary_resource:
  "fileUrl (st c) = [] \<Longrightarrow> no_original_in_flight c \<Longrightarrow> list_all mock_render es \<Longrightarrow>
   fileUrl (st (run env es c)) = []
   \<and> count_list (effects (run env es c)) (FetchFile i) = count_list (effects c) (FetchFile i)
   \<and> count_list (effects (run env es c)) (CreateObjectURL u)
       = count_list (effects c) (CreateObjectURL u)
   \<and> \<not> binary_renderer (body (modal_view env p (st (run env es c))))
   \<and> \<not> download_button (modal_view env p (st (run env es c)))
   \<and> (truthy (mockOriginalContent q) \<longrightarrow>
        fetchOriginalContent env q c0 =
          (c0\<lparr>st := (st c0)\<lparr>originalContent := str_of (mockOriginalContent q),
                            originalContentLoading := False\<rparr>\<rparr>, OrigDone)
        \<and> fileUrl (st (mount env q)) = [] \<and> no_original_in_flight (mount env q))"
proof -
  assume a: "fileUrl (st c) = []" and b: "no_original_in_flight c"
    and m: "list_all mock_render es"
  note r = run_mock [OF a b m, of env i u]
  have url: "fileUrl (st (run env es c)) = []" using r by blast
  have 1: "\<not> binary_renderer (body (modal_view env p (st (run env es c))))"
    using no_url_no_binary_renderer [OF url, where p = p and env = env] by (simp add: modal_view_def)
  have 2: "\<not> download_button (modal_view env p (st (run env es c)))"
    using url by (simp add: modal_view_def)
  have 3: "truthy (mockOriginalContent q) \<longrightarrow>
        fetchOriginalContent env q c0 =
          (c0\<lparr>st := (st c0)\<lparr>originalContent := str_of (mockOriginalContent q),
                            originalContentLoading := False\<rparr>\<rparr>, OrigDone)
        \<and> fileUrl (st (mount env q)) = [] \<and> no_original_in_flight (mount env q)"
    using fetchOriginalContent_mock [where p = q and c = c0 and env = env]
      mount_mock [where p = q and env = env] by blast
  show ?thesis
    using r 1 2 3 by blast
qed

theorem mock_session_has_no_binary_resource_witness:
  "(fileUrl (st (mount sample_env pdf_mock)) = []
    \<and> no_original_in_flight (mount sample_env pdf_mock)
    \<and> list_all mock_render [Render png_mock]
    \<and> truthy (mockOriginalContent pdf_mock))
   \<and> fileUrl (st (run sample_env [Render png_mock]
                     (mount sample_env pdf_mock))) = []
   \<and> \<not> binary_renderer (body (modal_view sample_env png_mock
          (st (run sample_env [Render png_mock]
                 (mount sample_env pdf_mock)))))
   \<and> \<not> download_button (modal_view sample_env png_mock
          (st (run sample_env [Render png_mock]
                 (mount sample_env pdf_mock))))"
proof -
  have a: "fileUrl (st (mount sample_env pdf_mock)) = []" by code_simp
  have b: "no_original_in_flight (mount sample_env pdf_mock)" by code_simp
  have m: "list_all mock_render [Render png_mock]" by code_simp
  have q: "truthy (mockOriginalContent pdf_mock)" by code_simp
  note t = mock_session_has_no_binary_resource [OF a b m, where env = sample_env
      and p = png_mock and q = pdf_mock]
  note 1 = t [THEN conjunct1]
  note 2 = t [THEN conjunct2, THEN conjunct2, THEN conjunct2, THEN conjunct1]
  note 3 = t [THEN conjunct2, THEN conjunct2, THEN conjunct2, THEN conjunct2, THEN conjunct1]
  show ?thesis
    by (rule conjI [OF conjI [OF a conjI [OF b conjI [OF m q]]] conjI [OF 1 conjI [OF 2 3]]])
qed

end
